theory Spec2Isabelle
  imports Complex_Main "HOL-Library.AList"
begin

section \<open>JavaScript values as the aggregation code sees them\<close>

text \<open>
  The daily roll-up pipeline (\<^verbatim>\<open>scripts/build-daily-from-raw.mjs\<close> and the
  daily-rollups library) works on values produced by \<^verbatim>\<open>JSON.parse\<close>: loosely typed
  records whose fields may be missing or hold any JSON value.

  Modelling decisions, all of them visible in the definitions below:
  \<^item> A JavaScript string is a \<^typ>\<open>string\<close>: the list of its UTF-16 code units, for strings
    whose code units are all below 256. On that range \<^verbatim>\<open>toLowerCase\<close> and
    \<^verbatim>\<open>trim\<close> are modelled exactly.
  \<^item> A JavaScript number is NaN, one of the two infinities, or a finite value. Finite
    values are exact rationals: the rounding of IEEE doubles is not modelled (the
    counters of the pipeline are integers far below \<open>2^53\<close>, where doubles are exact).
    Negative zero is not distinguished from zero (the code never observes the difference).
  \<^item> Built-ins whose result depends on large tables of the JavaScript runtime are
    parameters, collected in the record \<open>js_runtime\<close>: the decimal rendering of a
    finite number, the parsing of a string as a number, \<^verbatim>\<open>toUpperCase\<close>
    and \<^verbatim>\<open>localeCompare\<close>.
  \<^item> An object is the association list of its own properties in insertion order.
    Field values that are objects carrying their own \<^verbatim>\<open>toString\<close> property, and
    keys that name members of \<^verbatim>\<open>Object.prototype\<close>, are outside the model.
\<close>

datatype jsnum = NaN | PosInf | NegInf | Fin rat

instantiation jsnum :: comm_monoid_add
begin

definition zero_jsnum :: jsnum where
  "zero_jsnum = Fin 0"

fun plus_jsnum :: "jsnum \<Rightarrow> jsnum \<Rightarrow> jsnum" where
  "plus_jsnum NaN y = NaN"
| "plus_jsnum x NaN = NaN"
| "plus_jsnum PosInf NegInf = NaN"
| "plus_jsnum NegInf PosInf = NaN"
| "plus_jsnum PosInf y = PosInf"
| "plus_jsnum x PosInf = PosInf"
| "plus_jsnum NegInf y = NegInf"
| "plus_jsnum x NegInf = NegInf"
| "plus_jsnum (Fin a) (Fin b) = Fin (a + b)"

instance
proof (standard, goal_cases)
  case (1 x y z)
  show ?case by (cases x; cases y; cases z; simp)
next
  case (2 x y)
  show ?case by (cases x; cases y; simp)
next
  case (3 x)
  show ?case by (cases x; simp add: zero_jsnum_def)
qed

end

datatype jsval =
    JUndefined
  | JNull
  | JBool bool
  | JNum jsnum
  | JStr string
  | JArr "jsval list"
  | JObj "(string \<times> jsval) list"

datatype error = TypeError

record js_runtime =
  number_to_string :: "rat \<Rightarrow> string"
  string_to_number :: "string \<Rightarrow> jsnum"
  to_upper_case :: "string \<Rightarrow> string"
  locale_compare :: "string \<Rightarrow> string \<Rightarrow> int"

text \<open>Truthiness: \<^verbatim>\<open>!value\<close> is \<open>\<not> truthy value\<close>.\<close>

fun truthy :: "jsval \<Rightarrow> bool" where
  "truthy JUndefined = False"
| "truthy JNull = False"
| "truthy (JBool b) = b"
| "truthy (JNum n) = (n \<noteq> NaN \<and> n \<noteq> Fin 0)"
| "truthy (JStr s) = (s \<noteq> [])"
| "truthy (JArr xs) = True"
| "truthy (JObj kvs) = True"

text \<open>\<^verbatim>\<open>a || b\<close> and \<^verbatim>\<open>a ?? b\<close>.\<close>

definition js_or :: "jsval \<Rightarrow> jsval \<Rightarrow> jsval" where
  "js_or a b = (if truthy a then a else b)"

definition js_nullish :: "jsval \<Rightarrow> jsval \<Rightarrow> jsval" where
  "js_nullish a b = (if a = JUndefined \<or> a = JNull then b else a)"

text \<open>
  Property read \<^verbatim>\<open>value.name\<close> for the field names the pipeline uses: an own property
  of an object, \<^verbatim>\<open>undefined\<close> on an array or a primitive. (The code reads a field only
  from a value it has tested to be truthy.)
\<close>

fun js_get :: "jsval \<Rightarrow> string \<Rightarrow> jsval" where
  "js_get (JObj kvs) k = (case map_of kvs k of None \<Rightarrow> JUndefined | Some v \<Rightarrow> v)"
| "js_get v k = JUndefined"

text \<open>
  \<^verbatim>\<open>String(value)\<close>, which is what \<^verbatim>\<open>value.toString()\<close> returns on every value that
  is neither \<^verbatim>\<open>null\<close> nor \<^verbatim>\<open>undefined\<close>; the code calls \<^verbatim>\<open>toString\<close> only on
  values it has tested to be truthy or on \<^verbatim>\<open>value || ""\<close>. Inside an array,
  \<^verbatim>\<open>null\<close> and \<^verbatim>\<open>undefined\<close> elements are joined as empty strings.
\<close>

fun js_join :: "string list \<Rightarrow> string" where
  "js_join [] = []"
| "js_join [s] = s"
| "js_join (s # t # ss) = s @ '','' @ js_join (t # ss)"

fun js_toString :: "js_runtime \<Rightarrow> jsval \<Rightarrow> string" where
  "js_toString rt JUndefined = ''undefined''"
| "js_toString rt JNull = ''null''"
| "js_toString rt (JBool b) = (if b then ''true'' else ''false'')"
| "js_toString rt (JNum NaN) = ''NaN''"
| "js_toString rt (JNum PosInf) = ''Infinity''"
| "js_toString rt (JNum NegInf) = ''-Infinity''"
| "js_toString rt (JNum (Fin q)) = number_to_string rt q"
| "js_toString rt (JStr s) = s"
| "js_toString rt (JArr xs) =
     js_join (map (\<lambda>x. if x = JUndefined \<or> x = JNull then [] else js_toString rt x) xs)"
| "js_toString rt (JObj kvs) = ''[object Object]''"

text \<open>\<^verbatim>\<open>Number(value)\<close>: an array or object is converted through its string.\<close>

fun js_Number :: "js_runtime \<Rightarrow> jsval \<Rightarrow> jsnum" where
  "js_Number rt JUndefined = NaN"
| "js_Number rt JNull = Fin 0"
| "js_Number rt (JBool b) = (if b then Fin 1 else Fin 0)"
| "js_Number rt (JNum n) = n"
| "js_Number rt (JStr s) = string_to_number rt s"
| "js_Number rt (JArr xs) = string_to_number rt (js_toString rt (JArr xs))"
| "js_Number rt (JObj kvs) = string_to_number rt (js_toString rt (JObj kvs))"

text \<open>\<^verbatim>\<open>a > 0\<close> on numbers: false for NaN.\<close>

fun js_positive :: "jsnum \<Rightarrow> bool" where
  "js_positive NaN = False"
| "js_positive PosInf = True"
| "js_positive NegInf = False"
| "js_positive (Fin q) = (0 < q)"

subsection \<open>Strings\<close>

definition is_space :: "char \<Rightarrow> bool" where
  "is_space c = ((of_char c :: nat) \<in> {9, 10, 11, 12, 13, 32, 160})"

definition is_lower_alnum :: "char \<Rightarrow> bool" where
  "is_lower_alnum c = (let n = (of_char c :: nat) in (97 \<le> n \<and> n \<le> 122) \<or> (48 \<le> n \<and> n \<le> 57))"

definition lower_char :: "char \<Rightarrow> char" where
  "lower_char c = (let n = (of_char c :: nat) in
     if (65 \<le> n \<and> n \<le> 90) \<or> (192 \<le> n \<and> n \<le> 222 \<and> n \<noteq> 215)
     then char_of (n + 32) else c)"

definition toLowerCase :: "string \<Rightarrow> string" where
  "toLowerCase s = map lower_char s"

definition trim :: "string \<Rightarrow> string" where
  "trim s = rev (dropWhile is_space (rev (dropWhile is_space s)))"

text \<open>\<^verbatim>\<open>s.startsWith(p)\<close> and \<^verbatim>\<open>s.endsWith(p)\<close>.\<close>

definition startsWith :: "string \<Rightarrow> string \<Rightarrow> bool" where
  "startsWith s p = (take (length p) s = p)"

definition endsWith :: "string \<Rightarrow> string \<Rightarrow> bool" where
  "endsWith s p = (length p \<le> length s \<and> drop (length s - length p) s = p)"

text \<open>\<^verbatim>\<open>s.split(sep)\<close> for a non-empty separator (the code splits on "." and "__").\<close>

function split_acc :: "string \<Rightarrow> string \<Rightarrow> string \<Rightarrow> string list" where
  "split_acc sep acc s =
     (if sep = [] then [rev acc @ s]
      else if s = [] then [rev acc]
      else if take (length sep) s = sep then rev acc # split_acc sep [] (drop (length sep) s)
      else split_acc sep (hd s # acc) (tl s))"
  by pat_completeness auto
termination
  by (relation "measure (\<lambda>(sep, acc, s). length s)") (auto simp: neq_Nil_conv)

definition split :: "string \<Rightarrow> string \<Rightarrow> string list" where
  "split s sep = split_acc sep [] s"

text \<open>\<^verbatim>\<open>s.includes(p)\<close>.\<close>

fun str_includes :: "string \<Rightarrow> string \<Rightarrow> bool" where
  "str_includes [] p = (p = [])"
| "str_includes (c # cs) p = (take (length p) (c # cs) = p \<or> str_includes cs p)"

text \<open>\<^verbatim>\<open>s.replace(/[\s_]+/g, "-")\<close>: every maximal run of whitespace and underscores
  becomes one hyphen.\<close>

definition is_space_or_underscore :: "char \<Rightarrow> bool" where
  "is_space_or_underscore c = (is_space c \<or> c = CHR ''_'')"

function replace_space_runs :: "string \<Rightarrow> string" where
  "replace_space_runs [] = []"
| "replace_space_runs (c # cs) =
     (if is_space_or_underscore c
      then CHR ''-'' # replace_space_runs (dropWhile is_space_or_underscore cs)
      else c # replace_space_runs cs)"
  by pat_completeness auto
termination
  by (relation "measure length") (auto simp: less_Suc_eq_le length_dropWhile_le)

text \<open>\<^verbatim>\<open>list.sort(cmp)\<close> with a comparator: a stable insertion sort.\<close>

fun sort_insert :: "('a \<Rightarrow> 'a \<Rightarrow> int) \<Rightarrow> 'a \<Rightarrow> 'a list \<Rightarrow> 'a list" where
  "sort_insert cmp x [] = [x]"
| "sort_insert cmp x (y # ys) = (if cmp x y < 0 then x # y # ys else y # sort_insert cmp x ys)"

definition js_sort :: "('a \<Rightarrow> 'a \<Rightarrow> int) \<Rightarrow> 'a list \<Rightarrow> 'a list" where
  "js_sort cmp xs = foldl (\<lambda>acc x. sort_insert cmp x acc) [] xs"

section \<open>Key normaliser (\<^verbatim>\<open>scripts/build-daily-from-raw.mjs\<close>)\<close>

definition UNKNOWN_INSTANCE :: string where
  "UNKNOWN_INSTANCE = ''unknown''"

definition CARDUPDATR_SUFFIX :: string where
  "CARDUPDATR_SUFFIX = ''.cardupdatr.app''"

definition normalizeFiKey :: "js_runtime \<Rightarrow> jsval \<Rightarrow> string" where
  "normalizeFiKey rt v = (if \<not> truthy v then [] else toLowerCase (trim (js_toString rt v)))"

definition formatInstanceDisplay :: "js_runtime \<Rightarrow> jsval \<Rightarrow> string" where
  "formatInstanceDisplay rt v =
     (if \<not> truthy v then UNKNOWN_INSTANCE
      else let base = replace_space_runs (toLowerCase (trim (js_toString rt v)));
               display = (if base = [] then UNKNOWN_INSTANCE else base)
           in if display = ''digitalonboarding'' then ''digital-onboarding'' else display)"

definition canonicalInstance :: "js_runtime \<Rightarrow> jsval \<Rightarrow> string" where
  "canonicalInstance rt v =
     (if \<not> truthy v then UNKNOWN_INSTANCE
      else let normalized = filter is_lower_alnum (toLowerCase (trim (js_toString rt v)))
           in if normalized = [] then UNKNOWN_INSTANCE else normalized)"

definition adjustInstanceForFi :: "js_runtime \<Rightarrow> jsval \<Rightarrow> jsval \<Rightarrow> jsval" where
  "adjustInstanceForFi rt fiLookupKey instanceValue =
     (let fiNorm = normalizeFiKey rt fiLookupKey;
          instanceNorm = canonicalInstance rt instanceValue
      in if fiNorm = ''advancial-prod'' \<and> instanceNorm = ''default''
         then JStr ''advancial-prod'' else instanceValue)"

definition adjustFiLookupForInstance :: "js_runtime \<Rightarrow> jsval \<Rightarrow> jsval \<Rightarrow> jsval" where
  "adjustFiLookupForInstance rt fiLookupKey instanceValue =
     (let fiNorm = normalizeFiKey rt fiLookupKey;
          instanceNorm = canonicalInstance rt instanceValue
      in if fiNorm = ''default'' \<and> instanceNorm = ''advancialprod''
         then JStr ''advancial-prod'' else fiLookupKey)"

definition makeFiInstanceKey :: "js_runtime \<Rightarrow> jsval \<Rightarrow> jsval \<Rightarrow> string" where
  "makeFiInstanceKey rt fiKey inst =
     toLowerCase (js_toString rt (js_or fiKey (JStr []))) @ ''__'' @ canonicalInstance rt inst"

definition ensureInstanceDisplay :: "js_runtime \<Rightarrow> string list \<Rightarrow> string \<Rightarrow> string list" where
  "ensureInstanceDisplay rt list display =
     (if display = [] then list
      else let normalized = canonicalInstance rt (JStr display)
           in if list_ex (\<lambda>v. canonicalInstance rt (JStr v) = normalized) list then list
              else js_sort (locale_compare rt) (list @ [display]))"

text \<open>The test-instance allowlist (\<^verbatim>\<open>src/config/testInstances.mjs\<close>), which has its own
  \<^verbatim>\<open>canonicalInstance\<close>: the empty string for a falsy value.\<close>

definition RAW_TEST_INSTANCE_NAMES :: "string list" where
  "RAW_TEST_INSTANCE_NAMES = [''customer-dev'']"

definition canonicalInstance_testInstances :: "js_runtime \<Rightarrow> jsval \<Rightarrow> string" where
  "canonicalInstance_testInstances rt v =
     (if \<not> truthy v then []
      else filter is_lower_alnum (toLowerCase (trim (js_toString rt v))))"

definition isTestInstanceName :: "js_runtime \<Rightarrow> jsval \<Rightarrow> bool" where
  "isTestInstanceName rt v =
     (if \<not> truthy v then False
      else canonicalInstance_testInstances rt v
             \<in> set (map (\<lambda>name. canonicalInstance_testInstances rt (JStr name))
                        RAW_TEST_INSTANCE_NAMES))"

section \<open>Registry resolver\<close>

record registry_index =
  byLookup :: "string \<rightharpoonup> string"
  byName :: "string \<rightharpoonup> string"

definition empty_registry_index :: registry_index where
  "empty_registry_index = \<lparr>byLookup = Map.empty, byName = Map.empty\<rparr>"

text \<open>\<^verbatim>\<open>typeof v === "object"\<close> for a truthy value.\<close>

fun is_object :: "jsval \<Rightarrow> bool" where
  "is_object (JObj kvs) = True"
| "is_object (JArr xs) = True"
| "is_object v = False"

text \<open>\<^verbatim>\<open>Object.values(v)\<close>; it throws on \<^verbatim>\<open>null\<close>. The parameter default
  \<^verbatim>\<open>fiRegistry = {}\<close> replaces \<^verbatim>\<open>undefined\<close>.\<close>

fun object_values :: "jsval \<Rightarrow> error + jsval list" where
  "object_values (JObj kvs) = Inr (map snd kvs)"
| "object_values (JArr xs) = Inr xs"
| "object_values (JStr s) = Inr (map (\<lambda>c. JStr [c]) s)"
| "object_values JNull = Inl TypeError"
| "object_values v = Inr []"

definition registry_entry_step :: "js_runtime \<Rightarrow> registry_index \<Rightarrow> jsval \<Rightarrow> registry_index" where
  "registry_entry_step rt idx entry =
     (if \<not> truthy entry \<or> \<not> is_object entry then idx
      else let lookup = toLowerCase (js_toString rt
                 (js_or (js_or (js_get entry ''fi_lookup_key'') (js_get entry ''fi_name'')) (JStr [])));
               name = toLowerCase (js_toString rt (js_or (js_get entry ''fi_name'') (JStr [])));
               idx1 = (if lookup \<noteq> [] then idx\<lparr>byLookup := (byLookup idx)(lookup \<mapsto> lookup)\<rparr> else idx)
           in if name \<noteq> [] \<and> lookup \<noteq> []
              then idx1\<lparr>byName := (byName idx1)(name \<mapsto> lookup)\<rparr> else idx1)"

definition buildRegistryIndex :: "js_runtime \<Rightarrow> jsval \<Rightarrow> error + registry_index" where
  "buildRegistryIndex rt fiRegistry =
     (case object_values fiRegistry of
        Inl e \<Rightarrow> Inl e
      | Inr entries \<Rightarrow> Inr (foldl (registry_entry_step rt) empty_registry_index entries))"

text \<open>\<^verbatim>\<open>resolveFiKey\<close> returns a string or \<^verbatim>\<open>null\<close> (\<open>None\<close>).\<close>

definition resolveFiKey :: "js_runtime \<Rightarrow> jsval \<Rightarrow> jsval \<Rightarrow> registry_index \<Rightarrow> string option" where
  "resolveFiKey rt preferred fallbackName registryIndex =
     (let normalizedPreferred =
            (if truthy preferred then toLowerCase (js_toString rt preferred) else []);
          normalizedName =
            (if truthy fallbackName then toLowerCase (js_toString rt fallbackName) else [])
      in if normalizedPreferred \<noteq> []
         then (case byLookup registryIndex normalizedPreferred of
                 Some l \<Rightarrow> Some l
               | None \<Rightarrow> Some normalizedPreferred)
         else if normalizedName \<noteq> [] \<and> byName registryIndex normalizedName \<noteq> None
         then byName registryIndex normalizedName
         else if normalizedName \<noteq> [] then Some normalizedName else None)"

text \<open>A string-or-null result used as a condition: \<^verbatim>\<open>null\<close> and the empty string are falsy.\<close>

fun string_or :: "string option \<Rightarrow> string \<Rightarrow> string" where
  "string_or None d = d"
| "string_or (Some s) d = (if s = [] then d else s)"

text \<open>\<^verbatim>\<open>resolveFiFromHost\<close>: \<open>None\<close> is \<^verbatim>\<open>null\<close>, \<open>Some (fi_key, instance)\<close> the object.
  Calling \<^verbatim>\<open>endsWith\<close> on a value that is not a string throws.\<close>

definition resolveFiFromHost :: "jsval \<Rightarrow> error + (string \<times> string) option" where
  "resolveFiFromHost host =
     (case (if host = JUndefined then JStr [] else host) of
        JStr h \<Rightarrow>
          Inr (if \<not> endsWith h CARDUPDATR_SUFFIX then None
               else let prefix = take (length h - length CARDUPDATR_SUFFIX) h
                    in if prefix = [] then None
                       else (case split prefix ''.'' of
                               [] \<Rightarrow> None
                             | [p0] \<Rightarrow> Some (p0, p0)
                             | p0 # p1 # ps \<Rightarrow>
                                 let fi_key = p0;
                                     inst = (if p1 \<noteq> [] then p1 else p0)
                                 in if fi_key = ''default'' \<and> inst = ''advancial-prod''
                                    then Some (''advancial-prod'', inst)
                                    else Some (fi_key, inst)))
      | other \<Rightarrow> Inl TypeError)"

section \<open>Source aggregators\<close>

subsection \<open>GA\<close>

record ga_instance_bucket =
  gi_fi_lookup_key :: string
  gi_instance :: string
  gi_instance_norm :: string
  gi_is_test :: bool
  gi_select_merchants :: jsnum
  gi_user_data_collection :: jsnum
  gi_credential_entry :: jsnum

record ga_fi_bucket =
  gf_select_merchants :: jsnum
  gf_user_data_collection :: jsnum
  gf_credential_entry :: jsnum
  gf_instances :: "string list"

text \<open>\<^verbatim>\<open>parsedHost?.fi_key\<close> and \<^verbatim>\<open>parsedHost?.instance\<close>.\<close>

definition parsed_fi_key :: "(string \<times> string) option \<Rightarrow> jsval" where
  "parsed_fi_key p = (case p of None \<Rightarrow> JUndefined | Some (f, i) \<Rightarrow> JStr f)"

definition parsed_instance :: "(string \<times> string) option \<Rightarrow> jsval" where
  "parsed_instance p = (case p of None \<Rightarrow> JUndefined | Some (f, i) \<Rightarrow> JStr i)"

text \<open>The page-path bucketing of one GA row: first matching prefix wins.\<close>

definition ga_add_count :: "string \<Rightarrow> jsnum \<Rightarrow> ga_instance_bucket \<Rightarrow> ga_instance_bucket" where
  "ga_add_count pagePath count bucket =
     (let select = startsWith pagePath ''/select-merchants'';
          user = startsWith pagePath ''/user-data-collection'';
          cred = startsWith pagePath ''/credential-entry''
      in if select then bucket\<lparr>gi_select_merchants := gi_select_merchants bucket + count\<rparr>
         else if user then bucket\<lparr>gi_user_data_collection := gi_user_data_collection bucket + count\<rparr>
         else if cred then bucket\<lparr>gi_credential_entry := gi_credential_entry bucket + count\<rparr>
         else bucket)"

text \<open>The values one GA row is filed under: the host, the FI key (empty when
  \<^verbatim>\<open>resolveFiKey\<close> yields nothing, the case \<^verbatim>\<open>if (!fiKey) continue\<close>) and the raw
  instance.\<close>

definition ga_row_host :: "jsval \<Rightarrow> jsval" where
  "ga_row_host originalRow =
     js_or (js_or (js_get originalRow ''host'') (js_get originalRow ''hostname'')) (JStr [])"

definition ga_row_fiKey ::
  "js_runtime \<Rightarrow> registry_index \<Rightarrow> jsval \<Rightarrow> (string \<times> string) option \<Rightarrow> string" where
  "ga_row_fiKey rt registryIndex originalRow parsedHost =
     (let preferredKey =
            js_or (js_or (js_or (js_get originalRow ''fi_key'')
                                (js_get originalRow ''fi_lookup_key''))
                         (parsed_fi_key parsedHost)) JNull;
          fallbackName =
            js_or (js_or (js_get originalRow ''fi_name'') (parsed_fi_key parsedHost)) JNull
      in string_or (resolveFiKey rt preferredKey fallbackName registryIndex) [])"

definition ga_row_instanceRaw :: "jsval \<Rightarrow> (string \<times> string) option \<Rightarrow> jsval" where
  "ga_row_instanceRaw originalRow parsedHost =
     js_or (js_or (js_or (js_get originalRow ''instance'')
                         (js_get originalRow ''host_instance''))
                  (parsed_instance parsedHost)) (JStr UNKNOWN_INSTANCE)"

definition ga_row_count :: "js_runtime \<Rightarrow> jsval \<Rightarrow> jsnum" where
  "ga_row_count rt originalRow =
     js_Number rt
       (js_nullish (js_nullish (js_nullish (js_nullish
          (js_get originalRow ''active_users'')
          (js_get originalRow ''activeUsers''))
          (js_get originalRow ''views''))
          (js_get originalRow ''screenPageViews''))
          (JNum (Fin 0)))"

definition ga_row_pagePath :: "js_runtime \<Rightarrow> jsval \<Rightarrow> string" where
  "ga_row_pagePath rt originalRow =
     js_toString rt
       (js_or (js_or (js_or (js_get originalRow ''page'')
                            (js_get originalRow ''pagePath''))
                     (js_get originalRow ''pathname'')) (JStr []))"

text \<open>The loop body of \<^verbatim>\<open>aggregateGaFromRaw\<close> for a row with FI key \<open>fiKey\<close> and raw
  instance \<open>instanceRaw\<close>: the key of its bucket, and the bucket after the row.\<close>

definition ga_row_key :: "js_runtime \<Rightarrow> string \<Rightarrow> jsval \<Rightarrow> string" where
  "ga_row_key rt fiKey instanceRaw =
     (let adjustedInstance = adjustInstanceForFi rt (JStr fiKey) instanceRaw;
          instanceDisplay = formatInstanceDisplay rt adjustedInstance;
          normalizedInstance = canonicalInstance rt (JStr instanceDisplay)
      in makeFiInstanceKey rt (JStr fiKey) (JStr normalizedInstance))"

definition ga_row_bucket ::
  "js_runtime \<Rightarrow> (string \<times> ga_instance_bucket) list \<Rightarrow> jsval \<Rightarrow> string \<Rightarrow> jsval
     \<Rightarrow> ga_instance_bucket" where
  "ga_row_bucket rt byInstance originalRow fiKey instanceRaw =
     (let adjustedInstance = adjustInstanceForFi rt (JStr fiKey) instanceRaw;
          instanceDisplay = formatInstanceDisplay rt adjustedInstance;
          normalizedInstance = canonicalInstance rt (JStr instanceDisplay);
          isTest = isTestInstanceName rt (JStr normalizedInstance);
          fiInstanceKey = makeFiInstanceKey rt (JStr fiKey) (JStr normalizedInstance);
          bucket0 = (case map_of byInstance fiInstanceKey of
                       Some b \<Rightarrow> b
                     | None \<Rightarrow>
                         \<lparr>gi_fi_lookup_key = fiKey,
                          gi_instance = instanceDisplay,
                          gi_instance_norm = normalizedInstance,
                          gi_is_test = isTest,
                          gi_select_merchants = Fin 0,
                          gi_user_data_collection = Fin 0,
                          gi_credential_entry = Fin 0\<rparr>);
          bucket1 = (if isTest then bucket0\<lparr>gi_is_test := True\<rparr> else bucket0);
          count = ga_row_count rt originalRow;
          pagePath = ga_row_pagePath rt originalRow
      in ga_add_count pagePath count bucket1)"

text \<open>One iteration of the loop over \<^verbatim>\<open>rows\<close> in \<^verbatim>\<open>aggregateGaFromRaw\<close>.\<close>

definition ga_row_step ::
  "js_runtime \<Rightarrow> registry_index \<Rightarrow> (string \<times> ga_instance_bucket) list \<Rightarrow> jsval
     \<Rightarrow> error + (string \<times> ga_instance_bucket) list" where
  "ga_row_step rt registryIndex byInstance originalRow =
     (if \<not> truthy originalRow \<or> \<not> is_object originalRow then Inr byInstance
      else
        case resolveFiFromHost (ga_row_host originalRow) of
          Inl e \<Rightarrow> Inl e
        | Inr parsedHost \<Rightarrow>
            let fiKey = ga_row_fiKey rt registryIndex originalRow parsedHost;
                instanceRaw = ga_row_instanceRaw originalRow parsedHost
            in if fiKey = [] then Inr byInstance
               else Inr (AList.update (ga_row_key rt fiKey instanceRaw)
                           (ga_row_bucket rt byInstance originalRow fiKey instanceRaw)
                           byInstance))"

fun ga_rows_loop ::
  "js_runtime \<Rightarrow> registry_index \<Rightarrow> (string \<times> ga_instance_bucket) list \<Rightarrow> jsval list
     \<Rightarrow> error + (string \<times> ga_instance_bucket) list" where
  "ga_rows_loop rt registryIndex byInstance [] = Inr byInstance"
| "ga_rows_loop rt registryIndex byInstance (row # rows) =
     (case ga_row_step rt registryIndex byInstance row of
        Inl e \<Rightarrow> Inl e
      | Inr byInstance' \<Rightarrow> ga_rows_loop rt registryIndex byInstance' rows)"

text \<open>One iteration of the loop over \<^verbatim>\<open>Object.values(byInstance)\<close> that derives \<^verbatim>\<open>byFi\<close>.\<close>

definition ga_fi_step ::
  "js_runtime \<Rightarrow> (string \<times> ga_fi_bucket) list \<Rightarrow> ga_instance_bucket \<Rightarrow> (string \<times> ga_fi_bucket) list" where
  "ga_fi_step rt byFi entry =
     (let fiKey = gi_fi_lookup_key entry;
          fiBucket = (case map_of byFi fiKey of
                        Some b \<Rightarrow> b
                      | None \<Rightarrow> \<lparr>gf_select_merchants = Fin 0, gf_user_data_collection = Fin 0,
                                 gf_credential_entry = Fin 0, gf_instances = []\<rparr>)
      in AList.update fiKey
           \<lparr>gf_select_merchants = gf_select_merchants fiBucket + gi_select_merchants entry,
            gf_user_data_collection = gf_user_data_collection fiBucket + gi_user_data_collection entry,
            gf_credential_entry = gf_credential_entry fiBucket + gi_credential_entry entry,
            gf_instances = ensureInstanceDisplay rt (gf_instances fiBucket) (gi_instance entry)\<rparr>
           byFi)"

text \<open>\<^verbatim>\<open>Array.isArray(v) ? v : []\<close>.\<close>

fun array_or_empty :: "jsval \<Rightarrow> jsval list" where
  "array_or_empty (JArr xs) = xs"
| "array_or_empty v = []"

definition aggregateGaFromRaw ::
  "js_runtime \<Rightarrow> string \<Rightarrow> jsval \<Rightarrow> registry_index
     \<Rightarrow> error + ((string \<times> ga_fi_bucket) list \<times> (string \<times> ga_instance_bucket) list)" where
  "aggregateGaFromRaw rt day raw registryIndex =
     (if \<not> truthy raw \<or> truthy (js_get raw ''error'') then Inr ([], [])
      else case ga_rows_loop rt registryIndex [] (array_or_empty (js_get raw ''rows'')) of
             Inl e \<Rightarrow> Inl e
           | Inr byInstance \<Rightarrow> Inr (foldl (ga_fi_step rt) [] (map snd byInstance), byInstance))"

subsection \<open>Sessions\<close>

record session_instance_bucket =
  si_fi_lookup_key :: string
  si_fi_lookup_norm :: string
  si_instance :: string
  si_instance_norm :: string
  si_is_test :: bool
  si_total_sessions :: nat
  si_sessions_with_jobs :: nat
  si_sessions_with_success :: nat
  si_total_jobs_sum :: jsnum
  si_successful_jobs_sum :: jsnum

record session_fi_bucket =
  sf_total_sessions :: nat
  sf_sessions_with_jobs :: nat
  sf_sessions_with_success :: nat
  sf_total_jobs_sum :: jsnum
  sf_successful_jobs_sum :: jsnum

text \<open>\<^verbatim>\<open>n || 0\<close> on a number: NaN (and zero) become zero, everything else is kept.\<close>

definition num_or_zero :: "jsnum \<Rightarrow> jsnum" where
  "num_or_zero n = (if truthy (JNum n) then n else Fin 0)"

definition safeSessionFiKey :: "js_runtime \<Rightarrow> jsval \<Rightarrow> registry_index \<Rightarrow> string" where
  "safeSessionFiKey rt session registryIndex =
     (let lookup = js_nullish (js_nullish (js_get session ''financial_institution_lookup_key'')
                                          (js_get session ''fi_lookup_key'')) JNull;
          name = js_or (js_or (js_or (js_or (js_get session ''fi_name'')
                                            (js_get session ''financial_institution''))
                                     (js_get session ''financial_institution_name''))
                              (js_get session ''institution'')) JNull
      in string_or (resolveFiKey rt lookup name registryIndex) ''unknown_fi'')"

text \<open>The values the loop body derives from one session before it touches the bucket:
  the raw instance, the instance after \<^verbatim>\<open>adjustInstanceForFi\<close>, the FI lookup key after
  \<^verbatim>\<open>adjustFiLookupForInstance\<close>, and the key of the bucket.\<close>

definition session_instanceRaw :: "jsval \<Rightarrow> jsval" where
  "session_instanceRaw session =
     js_or (js_or (js_or (js_or (js_or (js_get session ''_instance'')
                                       (js_get session ''instance''))
                                (js_get session ''instance_name''))
                         (js_get session ''org_name''))
                  (js_get session ''instance_slug'')) (JStr UNKNOWN_INSTANCE)"

definition session_instanceValue :: "js_runtime \<Rightarrow> registry_index \<Rightarrow> jsval \<Rightarrow> jsval" where
  "session_instanceValue rt registryIndex session =
     adjustInstanceForFi rt (JStr (safeSessionFiKey rt session registryIndex))
       (session_instanceRaw session)"

definition session_fiLookup :: "js_runtime \<Rightarrow> registry_index \<Rightarrow> jsval \<Rightarrow> string" where
  "session_fiLookup rt registryIndex session =
     (let fiKey = safeSessionFiKey rt session registryIndex;
          instanceValue = session_instanceValue rt registryIndex session;
          adjustedFiKey = adjustFiLookupForInstance rt (JStr fiKey) instanceValue
      in js_toString rt (js_or (js_or adjustedFiKey (JStr fiKey)) (JStr ''unknown_fi'')))"

definition session_key :: "js_runtime \<Rightarrow> registry_index \<Rightarrow> jsval \<Rightarrow> string" where
  "session_key rt registryIndex session =
     (let fiLookup = session_fiLookup rt registryIndex session;
          normalizedFi = normalizeFiKey rt (JStr fiLookup);
          instanceDisplay = formatInstanceDisplay rt (session_instanceValue rt registryIndex session);
          normalizedInstance = canonicalInstance rt (JStr instanceDisplay)
      in makeFiInstanceKey rt (JStr normalizedFi) (JStr normalizedInstance))"

text \<open>What one session adds to its bucket: \<^verbatim>\<open>Number(session.total_jobs) || 0\<close> and
  \<^verbatim>\<open>Number(session.successful_jobs) || 0\<close>.\<close>

definition session_totalJobs :: "js_runtime \<Rightarrow> jsval \<Rightarrow> jsnum" where
  "session_totalJobs rt session = num_or_zero (js_Number rt (js_get session ''total_jobs''))"

definition session_successfulJobs :: "js_runtime \<Rightarrow> jsval \<Rightarrow> jsnum" where
  "session_successfulJobs rt session = num_or_zero (js_Number rt (js_get session ''successful_jobs''))"

text \<open>The bucket of a session after the loop body of \<^verbatim>\<open>aggregateSessionsFromRaw\<close>
  has counted it.\<close>

definition session_bucket ::
  "js_runtime \<Rightarrow> registry_index \<Rightarrow> (string \<times> session_instance_bucket) list \<Rightarrow> jsval
     \<Rightarrow> session_instance_bucket" where
  "session_bucket rt registryIndex byInstance session =
     (let fiLookup = session_fiLookup rt registryIndex session;
          normalizedFi = normalizeFiKey rt (JStr fiLookup);
          instanceDisplay = formatInstanceDisplay rt (session_instanceValue rt registryIndex session);
          normalizedInstance = canonicalInstance rt (JStr instanceDisplay);
          isTest = isTestInstanceName rt (JStr normalizedInstance);
          key = makeFiInstanceKey rt (JStr normalizedFi) (JStr normalizedInstance);
          totalJobs = session_totalJobs rt session;
          successfulJobs = session_successfulJobs rt session;
          bucket0 = (case map_of byInstance key of
                       Some b \<Rightarrow> b
                     | None \<Rightarrow>
                         \<lparr>si_fi_lookup_key = fiLookup,
                          si_fi_lookup_norm = normalizedFi,
                          si_instance = instanceDisplay,
                          si_instance_norm = normalizedInstance,
                          si_is_test = isTest,
                          si_total_sessions = 0,
                          si_sessions_with_jobs = 0,
                          si_sessions_with_success = 0,
                          si_total_jobs_sum = Fin 0,
                          si_successful_jobs_sum = Fin 0\<rparr>);
          bucket1 = (if isTest then bucket0\<lparr>si_is_test := True\<rparr> else bucket0)
      in bucket1\<lparr>si_total_sessions := si_total_sessions bucket1 + 1,
                  si_sessions_with_jobs :=
                    (if js_positive totalJobs then si_sessions_with_jobs bucket1 + 1
                     else si_sessions_with_jobs bucket1),
                  si_sessions_with_success :=
                    (if js_positive successfulJobs then si_sessions_with_success bucket1 + 1
                     else si_sessions_with_success bucket1),
                  si_total_jobs_sum := si_total_jobs_sum bucket1 + totalJobs,
                  si_successful_jobs_sum := si_successful_jobs_sum bucket1 + successfulJobs\<rparr>)"

text \<open>One iteration of the loop over \<^verbatim>\<open>sessions\<close> in \<^verbatim>\<open>aggregateSessionsFromRaw\<close>.\<close>

definition session_step ::
  "js_runtime \<Rightarrow> registry_index \<Rightarrow> (string \<times> session_instance_bucket) list \<Rightarrow> jsval
     \<Rightarrow> (string \<times> session_instance_bucket) list" where
  "session_step rt registryIndex byInstance session =
     (if \<not> truthy session \<or> \<not> is_object session then byInstance
      else AList.update (session_key rt registryIndex session)
             (session_bucket rt registryIndex byInstance session) byInstance)"

text \<open>The FI key under which the second loop files a per-instance entry:
  \<^verbatim>\<open>entry.fi_lookup_norm || entry.fi_lookup_key?.toString().toLowerCase()\<close>.\<close>

definition session_entry_fiKey :: "session_instance_bucket \<Rightarrow> string" where
  "session_entry_fiKey entry =
     (if si_fi_lookup_norm entry \<noteq> [] then si_fi_lookup_norm entry
      else toLowerCase (si_fi_lookup_key entry))"

definition session_fi_step ::
  "(string \<times> session_fi_bucket) list \<Rightarrow> session_instance_bucket \<Rightarrow> (string \<times> session_fi_bucket) list" where
  "session_fi_step byFi entry =
     (let fiKey = session_entry_fiKey entry
      in if fiKey = [] then byFi
         else let fiBucket = (case map_of byFi fiKey of
                                Some b \<Rightarrow> b
                              | None \<Rightarrow> \<lparr>sf_total_sessions = 0, sf_sessions_with_jobs = 0,
                                         sf_sessions_with_success = 0, sf_total_jobs_sum = Fin 0,
                                         sf_successful_jobs_sum = Fin 0\<rparr>)
              in AList.update fiKey
                   \<lparr>sf_total_sessions = sf_total_sessions fiBucket + si_total_sessions entry,
                    sf_sessions_with_jobs = sf_sessions_with_jobs fiBucket + si_sessions_with_jobs entry,
                    sf_sessions_with_success =
                      sf_sessions_with_success fiBucket + si_sessions_with_success entry,
                    sf_total_jobs_sum = sf_total_jobs_sum fiBucket + num_or_zero (si_total_jobs_sum entry),
                    sf_successful_jobs_sum =
                      sf_successful_jobs_sum fiBucket + num_or_zero (si_successful_jobs_sum entry)\<rparr>
                   byFi)"

definition aggregateSessionsFromRaw ::
  "js_runtime \<Rightarrow> jsval \<Rightarrow> registry_index
     \<Rightarrow> (string \<times> session_fi_bucket) list \<times> (string \<times> session_instance_bucket) list" where
  "aggregateSessionsFromRaw rt raw registryIndex =
     (if \<not> truthy raw \<or> truthy (js_get raw ''error'') then ([], [])
      else let byInstance = foldl (session_step rt registryIndex) []
                              (array_or_empty (js_get raw ''sessions''))
           in (foldl session_fi_step [] (map snd byInstance), byInstance))"

subsection \<open>Placements\<close>

record placement_totals =
  total_placements :: nat
  successful_placements :: nat
  by_termination :: "(string \<times> nat) list"

record placement_instance_bucket =
  pi_fi_lookup_key :: string
  pi_fi_lookup_norm :: string
  pi_instance :: string
  pi_instance_norm :: string
  pi_is_test :: bool
  pi_total_placements :: nat
  pi_successful_placements :: nat
  pi_by_termination :: "(string \<times> nat) list"

definition safePlacementFiKey :: "js_runtime \<Rightarrow> jsval \<Rightarrow> registry_index \<Rightarrow> string" where
  "safePlacementFiKey rt placement registryIndex =
     (let lookup = js_or (js_or (js_get placement ''fi_lookup_key'')
                                (js_get placement ''financial_institution_lookup_key'')) JNull;
          name = js_or (js_or (js_or (js_get placement ''fi_name'')
                                     (js_get placement ''financial_institution''))
                              (js_get placement ''issuer_name'')) JNull
      in string_or (resolveFiKey rt lookup name registryIndex) ''unknown_fi'')"

definition isSuccessfulPlacement :: "js_runtime \<Rightarrow> jsval \<Rightarrow> bool" where
  "isSuccessfulPlacement rt placement =
     (let status = to_upper_case rt (js_toString rt (js_or (js_get placement ''status'') (JStr [])));
          termination = to_upper_case rt
            (js_toString rt (js_or (js_get placement ''termination_type'') (JStr [])))
      in status = ''SUCCESSFUL'' \<or> termination = ''BILLABLE'')"

definition placement_instanceRaw :: "jsval \<Rightarrow> jsval" where
  "placement_instanceRaw placement =
     js_or (js_or (js_or (js_or (js_get placement ''_instance'')
                                (js_get placement ''instance''))
                         (js_get placement ''instance_name''))
                  (js_get placement ''org_name'')) (JStr UNKNOWN_INSTANCE)"

definition placement_instanceValue :: "js_runtime \<Rightarrow> registry_index \<Rightarrow> jsval \<Rightarrow> jsval" where
  "placement_instanceValue rt registryIndex placement =
     adjustInstanceForFi rt (JStr (safePlacementFiKey rt placement registryIndex))
       (placement_instanceRaw placement)"

text \<open>\<^verbatim>\<open>adjustedFiKey || baseFiKey\<close>; both are strings here.\<close>

definition placement_fiKey :: "js_runtime \<Rightarrow> registry_index \<Rightarrow> jsval \<Rightarrow> string" where
  "placement_fiKey rt registryIndex placement =
     (let baseFiKey = safePlacementFiKey rt placement registryIndex;
          instanceValue = placement_instanceValue rt registryIndex placement;
          adjustedFiKey = adjustFiLookupForInstance rt (JStr baseFiKey) instanceValue
      in js_toString rt (js_or adjustedFiKey (JStr baseFiKey)))"

definition placement_key :: "js_runtime \<Rightarrow> registry_index \<Rightarrow> jsval \<Rightarrow> string" where
  "placement_key rt registryIndex placement =
     (let fiKey = placement_fiKey rt registryIndex placement;
          normalizedFi = normalizeFiKey rt (JStr fiKey);
          instanceDisplay = formatInstanceDisplay rt (placement_instanceValue rt registryIndex placement);
          normalizedInstance = canonicalInstance rt (JStr instanceDisplay)
      in makeFiInstanceKey rt (JStr normalizedFi) (JStr normalizedInstance))"

definition placement_termination :: "js_runtime \<Rightarrow> jsval \<Rightarrow> string" where
  "placement_termination rt placement =
     to_upper_case rt (js_toString rt
       (js_or (js_or (js_or (js_get placement ''termination_type'')
                            (js_get placement ''termination''))
                     (js_get placement ''status'')) (JStr ''UNKNOWN'')))"

text \<open>\<^verbatim>\<open>obj[k] = (obj[k] || 0) + n\<close> on a frequency map.\<close>

definition bump :: "string \<Rightarrow> nat \<Rightarrow> (string \<times> nat) list \<Rightarrow> (string \<times> nat) list" where
  "bump k n freq = AList.update k ((case map_of freq k of Some c \<Rightarrow> c | None \<Rightarrow> 0) + n) freq"

text \<open>The bucket of a placement after the loop body of \<^verbatim>\<open>aggregatePlacementsFromRaw\<close>
  has counted it.\<close>

definition placement_bucket ::
  "js_runtime \<Rightarrow> registry_index \<Rightarrow> (string \<times> placement_instance_bucket) list \<Rightarrow> jsval
     \<Rightarrow> placement_instance_bucket" where
  "placement_bucket rt registryIndex byInstance placement =
     (let fiKey = placement_fiKey rt registryIndex placement;
          normalizedFi = normalizeFiKey rt (JStr fiKey);
          instanceDisplay = formatInstanceDisplay rt (placement_instanceValue rt registryIndex placement);
          normalizedInstance = canonicalInstance rt (JStr instanceDisplay);
          isTest = isTestInstanceName rt (JStr normalizedInstance);
          key = makeFiInstanceKey rt (JStr normalizedFi) (JStr normalizedInstance);
          termination = placement_termination rt placement;
          bucket0 = (case map_of byInstance key of
                       Some b \<Rightarrow> b
                     | None \<Rightarrow>
                         \<lparr>pi_fi_lookup_key = fiKey,
                          pi_fi_lookup_norm = normalizedFi,
                          pi_instance = instanceDisplay,
                          pi_instance_norm = normalizedInstance,
                          pi_is_test = isTest,
                          pi_total_placements = 0,
                          pi_successful_placements = 0,
                          pi_by_termination = []\<rparr>);
          bucket1 = (if isTest then bucket0\<lparr>pi_is_test := True\<rparr> else bucket0)
      in bucket1\<lparr>pi_total_placements := pi_total_placements bucket1 + 1,
                  pi_successful_placements :=
                    (if isSuccessfulPlacement rt placement
                     then pi_successful_placements bucket1 + 1
                     else pi_successful_placements bucket1),
                  pi_by_termination := bump termination 1 (pi_by_termination bucket1)\<rparr>)"

text \<open>One iteration of the loop over \<^verbatim>\<open>placements\<close> in \<^verbatim>\<open>aggregatePlacementsFromRaw\<close>.\<close>

definition placement_step ::
  "js_runtime \<Rightarrow> registry_index \<Rightarrow> (string \<times> placement_instance_bucket) list \<Rightarrow> jsval
     \<Rightarrow> (string \<times> placement_instance_bucket) list" where
  "placement_step rt registryIndex byInstance placement =
     (if \<not> truthy placement \<or> \<not> is_object placement then byInstance
      else AList.update (placement_key rt registryIndex placement)
             (placement_bucket rt registryIndex byInstance placement) byInstance)"

text \<open>\<^verbatim>\<open>entry.fi_lookup_norm || entry.fi_lookup_key?.toLowerCase()\<close>.\<close>

definition placement_entry_fiKey :: "placement_instance_bucket \<Rightarrow> string" where
  "placement_entry_fiKey entry =
     (if pi_fi_lookup_norm entry \<noteq> [] then pi_fi_lookup_norm entry
      else toLowerCase (pi_fi_lookup_key entry))"

definition placement_fi_step ::
  "(string \<times> placement_totals) list \<Rightarrow> placement_instance_bucket \<Rightarrow> (string \<times> placement_totals) list" where
  "placement_fi_step byFi entry =
     (let fiKey = placement_entry_fiKey entry
      in if fiKey = [] then byFi
         else let fiBucket = (case map_of byFi fiKey of
                                Some b \<Rightarrow> b
                              | None \<Rightarrow> \<lparr>total_placements = 0, successful_placements = 0,
                                         by_termination = []\<rparr>)
              in AList.update fiKey
                   \<lparr>total_placements = total_placements fiBucket + pi_total_placements entry,
                    successful_placements =
                      successful_placements fiBucket + pi_successful_placements entry,
                    by_termination =
                      foldl (\<lambda>freq (term, count). bump term count freq)
                            (by_termination fiBucket) (pi_by_termination entry)\<rparr>
                   byFi)"

definition aggregatePlacementsFromRaw ::
  "js_runtime \<Rightarrow> jsval \<Rightarrow> registry_index
     \<Rightarrow> (string \<times> placement_totals) list \<times> (string \<times> placement_instance_bucket) list" where
  "aggregatePlacementsFromRaw rt raw registryIndex =
     (if \<not> truthy raw \<or> truthy (js_get raw ''error'') then ([], [])
      else let byInstance = foldl (placement_step rt registryIndex) []
                              (array_or_empty (js_get raw ''placements''))
           in (foldl placement_fi_step [] (map snd byInstance), byInstance))"

section \<open>Daily document builder (daily-rollups library)\<close>

record ga_counts =
  select_merchants :: jsnum
  user_data_collection :: jsnum
  credential_entry :: jsnum

record sessions_counts =
  total_count :: nat
  with_jobs :: nat
  with_success :: nat
  without_jobs :: nat
  total_jobs :: jsnum
  successful_jobs :: jsnum
  job_distribution :: "(string \<times> nat) list"

record fi_entry =
  fe_ga :: ga_counts
  fe_ga_instances :: "string list"
  fe_sessions :: sessions_counts
  fe_placements :: placement_totals

record fi_instance_entry =
  ie_fi_lookup_key :: string
  ie_instance :: string
  ie_is_test :: bool
  ie_ga :: ga_counts
  ie_sessions :: sessions_counts
  ie_placements :: placement_totals

record doc_sources =
  src_ga :: bool
  src_sis_sessions :: bool
  src_sis_placements :: bool

record daily_document =
  doc_date :: string
  doc_sources :: doc_sources
  doc_fi :: "(string \<times> fi_entry) list"
  doc_fi_instances :: "(string \<times> fi_instance_entry) list"

text \<open>\<^verbatim>\<open>new Set([...])\<close>: the elements in order of first occurrence.\<close>

definition set_of_keys :: "string list \<Rightarrow> string list" where
  "set_of_keys ks = foldl (\<lambda>acc k. if k \<in> set acc then acc else acc @ [k]) [] ks"

definition parseInstanceKey :: "string \<Rightarrow> string \<times> string" where
  "parseInstanceKey key =
     (if \<not> str_includes key ''__'' then (key, UNKNOWN_INSTANCE)
      else (case split key ''__'' of
              f # i # rest \<Rightarrow> (f, if i = [] then UNKNOWN_INSTANCE else i)
            | [f] \<Rightarrow> (f, UNKNOWN_INSTANCE)
            | [] \<Rightarrow> ([], UNKNOWN_INSTANCE)))"

text \<open>\<^verbatim>\<open>chooseInstanceDisplay(...values)\<close>; a value is a string or \<^verbatim>\<open>undefined\<close>.\<close>

definition chooseInstanceDisplay :: "string option list \<Rightarrow> string" where
  "chooseInstanceDisplay vals =
     (let candidates = filter (\<lambda>v. v \<noteq> [] \<and> v \<noteq> UNKNOWN_INSTANCE)
                         (map (\<lambda>v. case v of Some s \<Rightarrow> s | None \<Rightarrow> []) vals)
      in case find (\<lambda>v. str_includes v ''-'') candidates of
           Some preferred \<Rightarrow> preferred
         | None \<Rightarrow> (case candidates of c # cs \<Rightarrow> c | [] \<Rightarrow> UNKNOWN_INSTANCE))"

text \<open>The first non-empty string of a \<^verbatim>\<open>a || b || ...\<close> chain of strings and
  \<^verbatim>\<open>undefined\<close>s, with a final default.\<close>

fun first_truthy :: "string option list \<Rightarrow> string \<Rightarrow> string" where
  "first_truthy [] d = d"
| "first_truthy (None # vs) d = first_truthy vs d"
| "first_truthy (Some s # vs) d = (if s \<noteq> [] then s else first_truthy vs d)"

text \<open>\<^verbatim>\<open>Math.max(0, (s.total_sessions || 0) - (s.sessions_with_jobs || 0))\<close>.\<close>

definition without_jobs_of :: "nat \<Rightarrow> nat \<Rightarrow> nat" where
  "without_jobs_of total_sessions sessions_with_jobs =
     nat (max 0 (int total_sessions - int sessions_with_jobs))"

text \<open>The de-duplication of the GA instance names of one FI.\<close>

definition ga_instances_of :: "js_runtime \<Rightarrow> string list \<Rightarrow> string list" where
  "ga_instances_of rt gaInstancesRaw =
     foldl (\<lambda>gaInstances display.
              if display = [] then gaInstances
              else let normalized = canonicalInstance rt (JStr display)
                   in if list_ex (\<lambda>v. canonicalInstance rt (JStr v) = normalized) gaInstances
                      then gaInstances else gaInstances @ [display])
           [] (filter (\<lambda>inst. inst \<noteq> []) gaInstancesRaw)"

text \<open>The body of the loop over \<^verbatim>\<open>allKeys\<close>: the entry \<^verbatim>\<open>fi[key]\<close>.\<close>

definition build_fi_entry ::
  "js_runtime \<Rightarrow> (string \<times> ga_fi_bucket) list \<Rightarrow> (string \<times> session_fi_bucket) list
     \<Rightarrow> (string \<times> placement_totals) list \<Rightarrow> string \<Rightarrow> fi_entry" where
  "build_fi_entry rt gaByFi sessionsByFi placementsByFi key =
     (let gRaw = map_of gaByFi key;
          g = (case gRaw of
                 Some b \<Rightarrow> (gf_select_merchants b, gf_user_data_collection b, gf_credential_entry b)
               | None \<Rightarrow> (Fin 0, Fin 0, Fin 0));
          s = (case map_of sessionsByFi key of
                 Some b \<Rightarrow> b
               | None \<Rightarrow> \<lparr>sf_total_sessions = 0, sf_sessions_with_jobs = 0,
                          sf_sessions_with_success = 0, sf_total_jobs_sum = Fin 0,
                          sf_successful_jobs_sum = Fin 0\<rparr>);
          p = (case map_of placementsByFi key of
                 Some b \<Rightarrow> b
               | None \<Rightarrow> \<lparr>total_placements = 0, successful_placements = 0, by_termination = []\<rparr>);
          gaInstancesRaw = (case gRaw of Some b \<Rightarrow> gf_instances b | None \<Rightarrow> [])
      in \<lparr>fe_ga = \<lparr>select_merchants = num_or_zero (fst g),
                   user_data_collection = num_or_zero (fst (snd g)),
                   credential_entry = num_or_zero (snd (snd g))\<rparr>,
          fe_ga_instances = ga_instances_of rt gaInstancesRaw,
          fe_sessions = \<lparr>total_count = sf_total_sessions s,
                         with_jobs = sf_sessions_with_jobs s,
                         with_success = sf_sessions_with_success s,
                         without_jobs = without_jobs_of (sf_total_sessions s) (sf_sessions_with_jobs s),
                         total_jobs = num_or_zero (sf_total_jobs_sum s),
                         successful_jobs = num_or_zero (sf_successful_jobs_sum s),
                         job_distribution = []\<rparr>,
          fe_placements = p\<rparr>)"

text \<open>The body of the loop over \<^verbatim>\<open>instanceKeys\<close>: the entry \<^verbatim>\<open>fiInstances[instanceKey]\<close>.\<close>

definition build_fi_instance_entry ::
  "(string \<times> ga_instance_bucket) list \<Rightarrow> (string \<times> session_instance_bucket) list
     \<Rightarrow> (string \<times> placement_instance_bucket) list \<Rightarrow> string \<Rightarrow> fi_instance_entry" where
  "build_fi_instance_entry gaByInstance sessionsByInstance placementsByInstance instanceKey =
     (let gaEntry = map_of gaByInstance instanceKey;
          sessionEntry = map_of sessionsByInstance instanceKey;
          placementEntry = map_of placementsByInstance instanceKey;
          parsed = parseInstanceKey instanceKey;
          fiLookupKey = first_truthy [map_option gi_fi_lookup_key gaEntry,
                                      map_option si_fi_lookup_key sessionEntry,
                                      map_option pi_fi_lookup_key placementEntry,
                                      Some (fst parsed)] ''unknown_fi'';
          instanceValue = chooseInstanceDisplay [map_option gi_instance gaEntry,
                                                 map_option si_instance sessionEntry,
                                                 map_option pi_instance placementEntry,
                                                 Some (snd parsed)];
          g = (case gaEntry of
                 Some b \<Rightarrow> (gi_select_merchants b, gi_user_data_collection b, gi_credential_entry b)
               | None \<Rightarrow> (Fin 0, Fin 0, Fin 0));
          s = (case sessionEntry of
                 Some b \<Rightarrow> (si_total_sessions b, si_sessions_with_jobs b, si_sessions_with_success b,
                            si_total_jobs_sum b, si_successful_jobs_sum b)
               | None \<Rightarrow> (0, 0, 0, Fin 0, Fin 0));
          p = (case placementEntry of
                 Some b \<Rightarrow> (pi_total_placements b, pi_successful_placements b, pi_by_termination b)
               | None \<Rightarrow> (0, 0, []));
          isTest = ((case gaEntry of Some b \<Rightarrow> gi_is_test b | None \<Rightarrow> False)
                    \<or> (case sessionEntry of Some b \<Rightarrow> si_is_test b | None \<Rightarrow> False)
                    \<or> (case placementEntry of Some b \<Rightarrow> pi_is_test b | None \<Rightarrow> False))
      in case s of (s_total, s_with_jobs, s_with_success, s_total_jobs, s_successful_jobs) \<Rightarrow>
         case p of (p_total, p_successful, p_by_termination) \<Rightarrow>
         \<lparr>ie_fi_lookup_key = fiLookupKey,
          ie_instance = instanceValue,
          ie_is_test = isTest,
          ie_ga = \<lparr>select_merchants = num_or_zero (fst g),
                   user_data_collection = num_or_zero (fst (snd g)),
                   credential_entry = num_or_zero (snd (snd g))\<rparr>,
          ie_sessions = \<lparr>total_count = s_total,
                         with_jobs = s_with_jobs,
                         with_success = s_with_success,
                         without_jobs = without_jobs_of s_total s_with_jobs,
                         total_jobs = num_or_zero s_total_jobs,
                         successful_jobs = num_or_zero s_successful_jobs,
                         job_distribution = []\<rparr>,
          ie_placements = \<lparr>total_placements = p_total,
                           successful_placements = p_successful,
                           by_termination = p_by_termination\<rparr>\<rparr>)"

definition buildDailyDocument ::
  "js_runtime \<Rightarrow> string
     \<Rightarrow> (string \<times> ga_fi_bucket) list \<Rightarrow> (string \<times> ga_instance_bucket) list
     \<Rightarrow> (string \<times> session_fi_bucket) list \<Rightarrow> (string \<times> session_instance_bucket) list
     \<Rightarrow> (string \<times> placement_totals) list \<Rightarrow> (string \<times> placement_instance_bucket) list
     \<Rightarrow> daily_document" where
  "buildDailyDocument rt day gaByFi gaByInstance sessionsByFi sessionsByInstance
                      placementsByFi placementsByInstance =
     (let allKeys = set_of_keys (map fst gaByFi @ map fst sessionsByFi @ map fst placementsByFi);
          instanceKeys = set_of_keys (map fst gaByInstance @ map fst sessionsByInstance
                                        @ map fst placementsByInstance)
      in \<lparr>doc_date = day,
          doc_sources = \<lparr>src_ga = (length (map fst gaByFi) > 0),
                         src_sis_sessions = (length (map fst sessionsByFi) > 0),
                         src_sis_placements = (length (map fst placementsByFi) > 0)\<rparr>,
          doc_fi = map (\<lambda>key. (key, build_fi_entry rt gaByFi sessionsByFi placementsByFi key)) allKeys,
          doc_fi_instances =
            map (\<lambda>instanceKey. (instanceKey,
                   build_fi_instance_entry gaByInstance sessionsByInstance placementsByInstance
                     instanceKey)) instanceKeys\<rparr>)"

section \<open>Writing a day and the range driver\<close>

text \<open>
  The output directory is a map from file paths to file contents. A file holds either the
  complete serialisation \<^verbatim>\<open>JSON.stringify(doc, null, 2)\<close> of a document or, while
  \<^verbatim>\<open>fs.writeFile\<close> is still running, only its first \<open>n\<close> bytes. \<^verbatim>\<open>fs.rename\<close> is one
  atomic step of the file system. File-system failures are not modelled.
\<close>

datatype file_content = Complete daily_document | Partial daily_document nat

type_synonym file_system = "string \<rightharpoonup> file_content"

datatype fs_op = WriteFile string daily_document | Rename string string

text \<open>The states of the file system that another process can observe while an operation
  runs, in order; the last one is the state after the operation. \<open>size_of doc\<close> is the
  length of the serialisation of \<open>doc\<close>.\<close>

fun fs_op_states :: "(daily_document \<Rightarrow> nat) \<Rightarrow> file_system \<Rightarrow> fs_op \<Rightarrow> file_system list" where
  "fs_op_states size_of fs (WriteFile p doc) =
     map (\<lambda>n. fs(p \<mapsto> Partial doc n)) [0..<size_of doc] @ [fs(p \<mapsto> Complete doc)]"
| "fs_op_states size_of fs (Rename src dst) = [(fs(dst := fs src))(src := None)]"

fun fs_ops_states :: "(daily_document \<Rightarrow> nat) \<Rightarrow> file_system \<Rightarrow> fs_op list \<Rightarrow> file_system list" where
  "fs_ops_states size_of fs [] = []"
| "fs_ops_states size_of fs (op # ops) =
     fs_op_states size_of fs op @ fs_ops_states size_of (last (fs_op_states size_of fs op)) ops"

definition dailyFilePath :: "string \<Rightarrow> string \<Rightarrow> string" where
  "dailyFilePath baseDir day = baseDir @ ''/'' @ day @ ''.json''"

text \<open>The temporary sibling; \<open>nonce\<close> is the text
  \<^verbatim>\<open>${process.pid}-${Date.now()}-${Math.random().toString(16).slice(2)}\<close>.\<close>

definition dailyTmpPath :: "string \<Rightarrow> string \<Rightarrow> string \<Rightarrow> string" where
  "dailyTmpPath baseDir day nonce = baseDir @ ''/'' @ ''.'' @ day @ ''.json.tmp-'' @ nonce"

text \<open>The file operations \<^verbatim>\<open>writeDailyFile\<close> awaits, in order (after \<^verbatim>\<open>ensureDir\<close>).\<close>

definition writeDailyFile_ops :: "string \<Rightarrow> string \<Rightarrow> daily_document \<Rightarrow> string \<Rightarrow> fs_op list" where
  "writeDailyFile_ops baseDir day doc nonce =
     [WriteFile (dailyTmpPath baseDir day nonce) doc,
      Rename (dailyTmpPath baseDir day nonce) (dailyFilePath baseDir day)]"

text \<open>The file system after an operation has completed.\<close>

fun fs_op_apply :: "file_system \<Rightarrow> fs_op \<Rightarrow> file_system" where
  "fs_op_apply fs (WriteFile p doc) = fs(p \<mapsto> Complete doc)"
| "fs_op_apply fs (Rename src dst) = (fs(dst := fs src))(src := None)"

definition writeDailyFile ::
  "file_system \<Rightarrow> string \<Rightarrow> string \<Rightarrow> daily_document \<Rightarrow> string \<Rightarrow> file_system" where
  "writeDailyFile fs baseDir day doc nonce =
     foldl fs_op_apply fs (writeDailyFile_ops baseDir day doc nonce)"

definition DAILY_OUTPUT_DIR :: string where
  "DAILY_OUTPUT_DIR = ''data/daily''"

text \<open>\<^verbatim>\<open>readRaw(type, day)\<close> is the parsed raw file, or \<^verbatim>\<open>null\<close> when there is none:
  a raw store is a function from the source type and the day to that value.\<close>

type_synonym raw_store = "string \<Rightarrow> string \<Rightarrow> jsval"

definition allSourcesMissing :: "jsval list \<Rightarrow> bool" where
  "allSourcesMissing rawValues = list_all (\<lambda>v. \<not> truthy v) rawValues"

text \<open>The document of one day, as the body of the loop in \<^verbatim>\<open>buildDailyFromRawRange\<close>
  computes it from the three raw payloads.\<close>

definition day_document ::
  "js_runtime \<Rightarrow> registry_index \<Rightarrow> raw_store \<Rightarrow> string \<Rightarrow> error + daily_document" where
  "day_document rt registryIndex readRaw day =
     (let gaRaw = readRaw ''ga'' day;
          sessionsRaw = readRaw ''sessions'' day;
          placementsRaw = readRaw ''placements'' day
      in case aggregateGaFromRaw rt day gaRaw registryIndex of
           Inl e \<Rightarrow> Inl e
         | Inr (gaByFi, gaByInstance) \<Rightarrow>
             (case aggregateSessionsFromRaw rt sessionsRaw registryIndex of
                (sessionsByFi, sessionsByInstance) \<Rightarrow>
             (case aggregatePlacementsFromRaw rt placementsRaw registryIndex of
                (placementsByFi, placementsByInstance) \<Rightarrow>
                  Inr (buildDailyDocument rt day gaByFi gaByInstance sessionsByFi sessionsByInstance
                         placementsByFi placementsByInstance))))"

text \<open>
  The loop over the days. \<open>nonce i\<close> is the nonce of the \<open>i\<close>-th iteration. The result is
  the error that ended the run, if any, and the file system the run leaves behind.
\<close>

fun days_loop ::
  "js_runtime \<Rightarrow> registry_index \<Rightarrow> raw_store \<Rightarrow> (nat \<Rightarrow> string) \<Rightarrow> nat \<Rightarrow> file_system
     \<Rightarrow> string list \<Rightarrow> error option \<times> file_system" where
  "days_loop rt registryIndex readRaw nonce i fs [] = (None, fs)"
| "days_loop rt registryIndex readRaw nonce i fs (day # days) =
     (if allSourcesMissing [readRaw ''ga'' day, readRaw ''sessions'' day, readRaw ''placements'' day]
      then days_loop rt registryIndex readRaw nonce (i + 1) fs days
      else case day_document rt registryIndex readRaw day of
             Inl e \<Rightarrow> (Some e, fs)
           | Inr doc \<Rightarrow>
               days_loop rt registryIndex readRaw nonce (i + 1)
                 (writeDailyFile fs DAILY_OUTPUT_DIR day doc (nonce i)) days)"

text \<open>
  \<^verbatim>\<open>buildDailyFromRawRange\<close>. \<open>registry\<close> is what \<^verbatim>\<open>readFiRegistry\<close> returns (the parsed
  registry file, or the empty object when it cannot be read); \<open>dates\<close> is the result of
  \<^verbatim>\<open>enumerateRange(startDate, endDate)\<close>, whose date arithmetic belongs to the runtime.
\<close>

definition buildDailyFromRawRange ::
  "js_runtime \<Rightarrow> jsval \<Rightarrow> raw_store \<Rightarrow> (nat \<Rightarrow> string) \<Rightarrow> string list \<Rightarrow> file_system
     \<Rightarrow> error option \<times> file_system" where
  "buildDailyFromRawRange rt registry readRaw nonce dates fs =
     (case buildRegistryIndex rt registry of
        Inl e \<Rightarrow> (Some e, fs)
      | Inr registryIndex \<Rightarrow> days_loop rt registryIndex readRaw nonce 0 fs dates)"

text \<open>The format \<^verbatim>\<open>/^\d{4}-\d{2}-\d{2}$/\<close> that \<^verbatim>\<open>validateIsoDate\<close> demands of a day.\<close>

definition is_digit :: "char \<Rightarrow> bool" where
  "is_digit c = (let n = (of_char c :: nat) in 48 \<le> n \<and> n \<le> 57)"

definition DAILY_FORMAT :: "string \<Rightarrow> bool" where
  "DAILY_FORMAT s =
     (case s of
        [y1, y2, y3, y4, h1, m1, m2, h2, d1, d2] \<Rightarrow>
          list_all is_digit [y1, y2, y3, y4, m1, m2, d1, d2] \<and> h1 = CHR ''-'' \<and> h2 = CHR ''-''
      | other \<Rightarrow> False)"

section \<open>A runtime instance for concrete evaluation\<close>

text \<open>
  The closed instances below are evaluated with this runtime. It agrees with JavaScript on
  what they feed it: ASCII strings and integers (it renders an integer in decimal, reads a
  decimal integer or a signed \<^verbatim>\<open>Infinity\<close>, upper-cases ASCII letters and compares
  strings by their code units).
\<close>

function digits_of :: "nat \<Rightarrow> string" where
  "digits_of n =
     (if n < 10 then [char_of (48 + n)] else digits_of (n div 10) @ [char_of (48 + n mod 10)])"
  by pat_completeness auto
termination
  by (relation "measure id") auto

definition sample_number_to_string :: "rat \<Rightarrow> string" where
  "sample_number_to_string q =
     (let a = fst (quotient_of q)
      in if a < 0 then ''-'' @ digits_of (nat (- a)) else digits_of (nat a))"

fun digits_value :: "nat \<Rightarrow> string \<Rightarrow> nat option" where
  "digits_value acc [] = Some acc"
| "digits_value acc (c # cs) =
     (if is_digit c then digits_value (10 * acc + (of_char c - 48)) cs else None)"

definition sample_string_to_number :: "string \<Rightarrow> jsnum" where
  "sample_string_to_number s =
     (let t = trim s
      in if t = [] then Fin 0
         else if t = ''Infinity'' \<or> t = ''+Infinity'' then PosInf
         else if t = ''-Infinity'' then NegInf
         else if hd t = CHR ''-'' \<and> tl t \<noteq> []
         then (case digits_value 0 (tl t) of Some n \<Rightarrow> Fin (- of_nat n) | None \<Rightarrow> NaN)
         else (case digits_value 0 t of Some n \<Rightarrow> Fin (of_nat n) | None \<Rightarrow> NaN))"

definition upper_char :: "char \<Rightarrow> char" where
  "upper_char c = (let n = (of_char c :: nat) in
     if 97 \<le> n \<and> n \<le> 122 then char_of (n - 32) else c)"

fun code_unit_compare :: "string \<Rightarrow> string \<Rightarrow> int" where
  "code_unit_compare [] [] = 0"
| "code_unit_compare [] (b # bs) = - 1"
| "code_unit_compare (a # as) [] = 1"
| "code_unit_compare (a # as) (b # bs) =
     (if (of_char a :: nat) < of_char b then - 1
      else if (of_char b :: nat) < of_char a then 1
      else code_unit_compare as bs)"

definition sample_runtime :: js_runtime where
  "sample_runtime =
     \<lparr>number_to_string = sample_number_to_string,
      string_to_number = sample_string_to_number,
      to_upper_case = map upper_char,
      locale_compare = code_unit_compare\<rparr>"

section \<open>Properties\<close>

lemma is_lower_alnum_lower_char: "is_lower_alnum c \<Longrightarrow> lower_char c = c"
  by (auto simp: is_lower_alnum_def lower_char_def Let_def)

lemma is_lower_alnum_not_space: "is_lower_alnum c \<Longrightarrow> \<not> is_space c"
  by (auto simp: is_lower_alnum_def is_space_def Let_def)

lemma toLowerCase_alnum: "\<forall>c\<in>set s. is_lower_alnum c \<Longrightarrow> toLowerCase s = s"
  by (simp add: toLowerCase_def map_idI is_lower_alnum_lower_char)

lemma trim_alnum: "\<forall>c\<in>set s. is_lower_alnum c \<Longrightarrow> trim s = s"
proof -
  assume a: "\<forall>c\<in>set s. is_lower_alnum c"
  have 1: "dropWhile is_space s = s"
    using a by (cases s) (auto simp: is_lower_alnum_not_space)
  have 2: "dropWhile is_space (rev s) = rev s"
    using a by (cases "rev s") (auto simp: is_lower_alnum_not_space dest: arg_cong [where f = set])
  show ?thesis by (simp add: trim_def 1 2)
qed

lemma canonicalInstance_alnum:
  assumes "s \<noteq> []" "\<forall>c\<in>set s. is_lower_alnum c"
  shows "canonicalInstance rt (JStr s) = s"
  using assms by (simp add: canonicalInstance_def toLowerCase_alnum trim_alnum Let_def)

lemma UNKNOWN_INSTANCE_alnum: "\<forall>c\<in>set UNKNOWN_INSTANCE. is_lower_alnum c"
  by (simp add: UNKNOWN_INSTANCE_def is_lower_alnum_def)

lemma canonicalInstance_range:
  "canonicalInstance rt v \<noteq> [] \<and> (\<forall>c\<in>set (canonicalInstance rt v). is_lower_alnum c)"
  using UNKNOWN_INSTANCE_alnum
  by (auto simp: canonicalInstance_def Let_def UNKNOWN_INSTANCE_def)

subsection \<open>Canonicalisation\<close>

text \<open>
  C4. \<^verbatim>\<open>canonicalInstance\<close> is idempotent on every value: applying it to its own result
  returns that result. Its result consists of characters of \<open>[a-z0-9]\<close> only, it is
  \<^verbatim>\<open>"unknown"\<close> for every falsy value (the empty string included), and on a string it is
  the trimmed, lower-cased string with every character outside \<open>[a-z0-9]\<close> removed, or
  \<^verbatim>\<open>"unknown"\<close> when nothing is left. The function is total: it has no error result.
\<close>

theorem canonicalInstance_idempotent:
  "canonicalInstance rt (JStr (canonicalInstance rt v)) = canonicalInstance rt v
   \<and> (\<forall>c\<in>set (canonicalInstance rt v). is_lower_alnum c)
   \<and> (\<not> truthy v \<longrightarrow> canonicalInstance rt v = ''unknown'')
   \<and> canonicalInstance rt (JStr s) =
       (if filter is_lower_alnum (toLowerCase (trim s)) = [] then ''unknown''
        else filter is_lower_alnum (toLowerCase (trim s)))"
proof -
  have idem: "canonicalInstance rt (JStr (canonicalInstance rt v)) = canonicalInstance rt v"
    using canonicalInstance_range [of rt v] by (intro canonicalInstance_alnum) simp_all
  have falsy: "\<not> truthy v \<longrightarrow> canonicalInstance rt v = ''unknown''"
    by (simp add: canonicalInstance_def UNKNOWN_INSTANCE_def)
  have str: "canonicalInstance rt (JStr s) =
       (if filter is_lower_alnum (toLowerCase (trim s)) = [] then ''unknown''
        else filter is_lower_alnum (toLowerCase (trim s)))"
    by (cases "s = []") (simp_all add: canonicalInstance_def UNKNOWN_INSTANCE_def Let_def
        trim_def toLowerCase_def)
  show ?thesis
    using idem falsy str canonicalInstance_range [of rt v] by blast
qed

theorem canonicalInstance_idempotent_witness:
  "canonicalInstance sample_runtime JNull = ''unknown''
   \<and> canonicalInstance sample_runtime (JStr ''unknown'') = ''unknown''
   \<and> is_lower_alnum (CHR ''u'')
   \<and> canonicalInstance sample_runtime (JStr ''Customer_Dev 01'') = ''customerdev01''"
proof -
  have e: "filter is_lower_alnum (toLowerCase (trim ''Customer_Dev 01'')) = ''customerdev01''"
    by code_simp
  have n: "\<not> truthy JNull"
    by simp
  note t = canonicalInstance_idempotent [of sample_runtime JNull "''Customer_Dev 01''"]
  from t n have u: "canonicalInstance sample_runtime JNull = ''unknown''"
    by blast
  from t have "canonicalInstance sample_runtime (JStr (canonicalInstance sample_runtime JNull))
      = canonicalInstance sample_runtime JNull"
    by blast
  then have i: "canonicalInstance sample_runtime (JStr ''unknown'') = ''unknown''"
    unfolding u .
  from t have "\<forall>c\<in>set (canonicalInstance sample_runtime JNull). is_lower_alnum c"
    by blast
  then have a: "is_lower_alnum (CHR ''u'')"
    unfolding u by simp
  from t e have c: "canonicalInstance sample_runtime (JStr ''Customer_Dev 01'') = ''customerdev01''"
    by simp
  show ?thesis
    using u i a c by blast
qed

subsection \<open>Lookups in the daily document\<close>

lemma set_foldl_keys:
  "set (foldl (\<lambda>acc k. if k \<in> set acc then acc else acc @ [k]) acc ks) = set acc \<union> set ks"
  by (induction ks arbitrary: acc) auto

lemma set_set_of_keys: "set (set_of_keys ks) = set ks"
  by (simp add: set_of_keys_def set_foldl_keys)

lemma distinct_foldl_keys:
  "distinct acc \<Longrightarrow> distinct (foldl (\<lambda>acc k. if k \<in> set acc then acc else acc @ [k]) acc ks)"
  by (induction ks arbitrary: acc) auto

lemma distinct_set_of_keys: "distinct (set_of_keys ks)"
  by (simp add: set_of_keys_def distinct_foldl_keys)

lemma map_of_tabulate: "map_of (map (\<lambda>k. (k, f k)) ks) k = (if k \<in> set ks then Some (f k) else None)"
  by (induction ks) auto

lemma map_of_doc_fi:
  "map_of (doc_fi (buildDailyDocument rt day gF gI sF sI pF pI)) k =
     (if k \<in> fst ` set gF \<union> fst ` set sF \<union> fst ` set pF
      then Some (build_fi_entry rt gF sF pF k) else None)"
  by (simp add: buildDailyDocument_def Let_def map_of_tabulate set_set_of_keys)


subsection \<open>GA page buckets\<close>

lemma startsWith_take2: "startsWith p a \<Longrightarrow> 2 \<le> length a \<Longrightarrow> take 2 p = take 2 a"
  unfolding startsWith_def by (metis min.absorb1 take_take)

lemma ga_scenario_aggregate:
  "aggregateGaFromRaw rt day
     (JObj [(''date'', JStr day),
            (''rows'', JArr
               [JObj [(''host'', JStr ''acme.instance1.cardupdatr.app''),
                      (''page'', JStr ''/select-merchants''),
                      (''active_users'', JNum (Fin 5))],
                JObj [(''host'', JStr ''acme.instance1.cardupdatr.app''),
                      (''page'', JStr ''/credential-entry''),
                      (''active_users'', JNum (Fin 2))]])])
     empty_registry_index =
   Inr ([(''acme'', \<lparr>gf_select_merchants = Fin 5, gf_user_data_collection = Fin 0,
                      gf_credential_entry = Fin 2, gf_instances = [''instance1'']\<rparr>)],
        [(''acme__instance1'',
          \<lparr>gi_fi_lookup_key = ''acme'', gi_instance = ''instance1'',
           gi_instance_norm = ''instance1'', gi_is_test = False,
           gi_select_merchants = Fin 5, gi_user_data_collection = Fin 0,
           gi_credential_entry = Fin 2\<rparr>)])"
  by code_simp

text \<open>
  C5. With an empty registry index, a GA raw day holding exactly the two rows of the
  scenario (host \<^verbatim>\<open>acme.instance1.cardupdatr.app\<close>, pages \<^verbatim>\<open>/select-merchants\<close> with 5
  active users and \<^verbatim>\<open>/credential-entry\<close> with 2) gives a daily document whose
  \<^verbatim>\<open>fi["acme"].ga\<close> is \<open>{select_merchants: 5, user_data_collection: 0, credential_entry: 2}\<close>,
  whatever the sessions and placements payloads of the day are. In general a row adds its
  count to the counter of the prefix its page path starts with and to no other; the three
  prefixes exclude each other, and a page path with none of them changes no counter.
\<close>

theorem ga_scenario_and_page_buckets:
  assumes "readRaw ''ga'' day =
     JObj [(''date'', JStr day),
           (''rows'', JArr
              [JObj [(''host'', JStr ''acme.instance1.cardupdatr.app''),
                     (''page'', JStr ''/select-merchants''),
                     (''active_users'', JNum (Fin 5))],
               JObj [(''host'', JStr ''acme.instance1.cardupdatr.app''),
                     (''page'', JStr ''/credential-entry''),
                     (''active_users'', JNum (Fin 2))]])]"
  shows "map_sum id (\<lambda>doc. map_option fe_ga (map_of (doc_fi doc) ''acme''))
           (day_document rt empty_registry_index readRaw day)
         = Inr (Some \<lparr>select_merchants = Fin 5, user_data_collection = Fin 0,
                       credential_entry = Fin 2\<rparr>)
   \<and> gi_select_merchants (ga_add_count pagePath count bucket) =
       gi_select_merchants bucket
         + (if startsWith pagePath ''/select-merchants'' then count else 0)
   \<and> gi_user_data_collection (ga_add_count pagePath count bucket) =
       gi_user_data_collection bucket
         + (if startsWith pagePath ''/user-data-collection'' then count else 0)
   \<and> gi_credential_entry (ga_add_count pagePath count bucket) =
       gi_credential_entry bucket
         + (if startsWith pagePath ''/credential-entry'' then count else 0)
   \<and> \<not> (startsWith pagePath ''/select-merchants'' \<and> startsWith pagePath ''/user-data-collection'')
   \<and> \<not> (startsWith pagePath ''/select-merchants'' \<and> startsWith pagePath ''/credential-entry'')
   \<and> \<not> (startsWith pagePath ''/user-data-collection'' \<and> startsWith pagePath ''/credential-entry'')"
proof -
  have ex1: "\<not> (startsWith pagePath ''/select-merchants'' \<and> startsWith pagePath ''/user-data-collection'')"
    using startsWith_take2 [of pagePath "''/select-merchants''"]
          startsWith_take2 [of pagePath "''/user-data-collection''"] by auto
  have ex2: "\<not> (startsWith pagePath ''/select-merchants'' \<and> startsWith pagePath ''/credential-entry'')"
    using startsWith_take2 [of pagePath "''/select-merchants''"]
          startsWith_take2 [of pagePath "''/credential-entry''"] by auto
  have ex3: "\<not> (startsWith pagePath ''/user-data-collection'' \<and> startsWith pagePath ''/credential-entry'')"
    using startsWith_take2 [of pagePath "''/user-data-collection''"]
          startsWith_take2 [of pagePath "''/credential-entry''"] by auto
  have b1: "gi_select_merchants (ga_add_count pagePath count bucket) =
       gi_select_merchants bucket
         + (if startsWith pagePath ''/select-merchants'' then count else 0)"
    using ex1 ex2 by (simp add: ga_add_count_def)
  have b2: "gi_user_data_collection (ga_add_count pagePath count bucket) =
       gi_user_data_collection bucket
         + (if startsWith pagePath ''/user-data-collection'' then count else 0)"
    using ex1 ex3 by (simp add: ga_add_count_def)
  have b3: "gi_credential_entry (ga_add_count pagePath count bucket) =
       gi_credential_entry bucket
         + (if startsWith pagePath ''/credential-entry'' then count else 0)"
    using ex2 ex3 by (simp add: ga_add_count_def)
  have doc: "map_sum id (\<lambda>doc. map_option fe_ga (map_of (doc_fi doc) ''acme''))
           (day_document rt empty_registry_index readRaw day)
         = Inr (Some \<lparr>select_merchants = Fin 5, user_data_collection = Fin 0,
                       credential_entry = Fin 2\<rparr>)"
    by (simp add: day_document_def assms ga_scenario_aggregate map_of_doc_fi
        build_fi_entry_def num_or_zero_def Let_def split: prod.splits)
  show ?thesis
    using doc b1 b2 b3 ex1 ex2 ex3 by blast
qed

theorem ga_scenario_and_page_buckets_witness:
  "map_sum id (\<lambda>doc. map_option fe_ga (map_of (doc_fi doc) ''acme''))
     (day_document sample_runtime empty_registry_index
        (\<lambda>type day. if type = ''ga'' then
           JObj [(''date'', JStr day),
                 (''rows'', JArr
                    [JObj [(''host'', JStr ''acme.instance1.cardupdatr.app''),
                           (''page'', JStr ''/select-merchants''),
                           (''active_users'', JNum (Fin 5))],
                     JObj [(''host'', JStr ''acme.instance1.cardupdatr.app''),
                           (''page'', JStr ''/credential-entry''),
                           (''active_users'', JNum (Fin 2))]])]
         else JNull)
        ''2025-03-01'')
   = Inr (Some \<lparr>select_merchants = Fin 5, user_data_collection = Fin 0,
                 credential_entry = Fin 2\<rparr>)"
  using ga_scenario_and_page_buckets [of "(\<lambda>type day. if type = ''ga'' then
           JObj [(''date'', JStr day),
                 (''rows'', JArr
                    [JObj [(''host'', JStr ''acme.instance1.cardupdatr.app''),
                           (''page'', JStr ''/select-merchants''),
                           (''active_users'', JNum (Fin 5))],
                     JObj [(''host'', JStr ''acme.instance1.cardupdatr.app''),
                           (''page'', JStr ''/credential-entry''),
                           (''active_users'', JNum (Fin 2))]])]
         else JNull)" "''2025-03-01''" sample_runtime]
  by simp

subsection \<open>Sessions: what one record adds to the job sums\<close>

lemma num_or_zero_eq: "num_or_zero n = (if n = NaN then Fin 0 else n)"
  by (simp add: num_or_zero_def)

lemma sum_list_update_add:
  fixes g :: "'b \<Rightarrow> jsnum"
  assumes "g v = (case map_of al k of Some b \<Rightarrow> g b | None \<Rightarrow> 0) + c"
  shows "sum_list (map (g \<circ> snd) (AList.update k v al)) = sum_list (map (g \<circ> snd) al) + c"
  using assms
proof (induction al)
  case Nil
  then show ?case by simp
next
  case (Cons p al)
  show ?case
  proof (cases "fst p = k")
    case True
    with Cons.prems show ?thesis
      by (cases p) (simp add: ac_simps)
  next
    case False
    with Cons.prems have "g v = (case map_of al k of Some b \<Rightarrow> g b | None \<Rightarrow> 0) + c"
      by (cases p) simp
    from Cons.IH [OF this] False show ?thesis
      by (cases p) (simp add: ac_simps)
  qed
qed

lemma session_step_skip:
  "\<not> (truthy session \<and> is_object session) \<Longrightarrow> session_step rt idx byInstance session = byInstance"
  by (auto simp: session_step_def)

lemma session_step_total_jobs_sum:
  "sum_list (map (si_total_jobs_sum \<circ> snd) (session_step rt idx byInstance session)) =
     sum_list (map (si_total_jobs_sum \<circ> snd) byInstance)
       + (if truthy session \<and> is_object session then session_totalJobs rt session else 0)"
proof (cases "truthy session \<and> is_object session")
  case True
  have "sum_list (map (si_total_jobs_sum \<circ> snd) (session_step rt idx byInstance session)) =
     sum_list (map (si_total_jobs_sum \<circ> snd) byInstance) + session_totalJobs rt session"
    using True unfolding session_step_def
    by (simp, intro sum_list_update_add)
       (simp add: session_bucket_def session_key_def Let_def zero_jsnum_def split: option.splits)
  with True show ?thesis by simp
next
  case False
  then have "session_step rt idx byInstance session = byInstance"
    by (rule session_step_skip)
  with False show ?thesis by auto
qed

lemma session_step_successful_jobs_sum:
  "sum_list (map (si_successful_jobs_sum \<circ> snd) (session_step rt idx byInstance session)) =
     sum_list (map (si_successful_jobs_sum \<circ> snd) byInstance)
       + (if truthy session \<and> is_object session then session_successfulJobs rt session else 0)"
proof (cases "truthy session \<and> is_object session")
  case True
  have "sum_list (map (si_successful_jobs_sum \<circ> snd) (session_step rt idx byInstance session)) =
     sum_list (map (si_successful_jobs_sum \<circ> snd) byInstance) + session_successfulJobs rt session"
    using True unfolding session_step_def
    by (simp, intro sum_list_update_add)
       (simp add: session_bucket_def session_key_def Let_def zero_jsnum_def split: option.splits)
  with True show ?thesis by simp
next
  case False
  then have "session_step rt idx byInstance session = byInstance"
    by (rule session_step_skip)
  with False show ?thesis by auto
qed

lemma sessions_loop_total_jobs_sum:
  "sum_list (map (si_total_jobs_sum \<circ> snd) (foldl (session_step rt idx) byInstance sessions)) =
     sum_list (map (si_total_jobs_sum \<circ> snd) byInstance)
       + sum_list (map (session_totalJobs rt) (filter (\<lambda>s. truthy s \<and> is_object s) sessions))"
  by (induction sessions arbitrary: byInstance)
     (simp_all add: session_step_total_jobs_sum add.assoc)

lemma sessions_loop_successful_jobs_sum:
  "sum_list (map (si_successful_jobs_sum \<circ> snd) (foldl (session_step rt idx) byInstance sessions)) =
     sum_list (map (si_successful_jobs_sum \<circ> snd) byInstance)
       + sum_list (map (session_successfulJobs rt) (filter (\<lambda>s. truthy s \<and> is_object s) sessions))"
  by (induction sessions arbitrary: byInstance)
     (simp_all add: session_step_successful_jobs_sum add.assoc)

text \<open>
  C6, as the code has it. A session adds \<^verbatim>\<open>Number(session.total_jobs) || 0\<close> to
  \<^verbatim>\<open>total_jobs_sum\<close> of its bucket: the numeric value of the field, except that NaN
  counts as 0. An infinite value is not replaced: it is added as it is. The same holds
  for \<^verbatim>\<open>successful_jobs\<close>. Over a whole payload, the job sums of all per-instance
  buckets together are the sum of these contributions of the records processed.
\<close>

theorem session_jobs_contribution:
  "session_totalJobs rt session =
     (if js_Number rt (js_get session ''total_jobs'') = NaN then Fin 0
      else js_Number rt (js_get session ''total_jobs''))
   \<and> session_successfulJobs rt session =
     (if js_Number rt (js_get session ''successful_jobs'') = NaN then Fin 0
      else js_Number rt (js_get session ''successful_jobs''))
   \<and> (truthy session \<and> is_object session \<longrightarrow>
        map_option si_total_jobs_sum
          (map_of (session_step rt idx byInstance session) (session_key rt idx session)) =
        Some ((case map_of byInstance (session_key rt idx session) of
                 Some b0 \<Rightarrow> si_total_jobs_sum b0 | None \<Rightarrow> 0) + session_totalJobs rt session)
        \<and> map_option si_successful_jobs_sum
          (map_of (session_step rt idx byInstance session) (session_key rt idx session)) =
        Some ((case map_of byInstance (session_key rt idx session) of
                 Some b0 \<Rightarrow> si_successful_jobs_sum b0 | None \<Rightarrow> 0)
              + session_successfulJobs rt session))
   \<and> sum_list (map (si_total_jobs_sum \<circ> snd) (snd (aggregateSessionsFromRaw rt raw idx))) =
       (if \<not> truthy raw \<or> truthy (js_get raw ''error'') then 0
        else sum_list (map (session_totalJobs rt)
               (filter (\<lambda>s. truthy s \<and> is_object s) (array_or_empty (js_get raw ''sessions'')))))
   \<and> sum_list (map (si_successful_jobs_sum \<circ> snd) (snd (aggregateSessionsFromRaw rt raw idx))) =
       (if \<not> truthy raw \<or> truthy (js_get raw ''error'') then 0
        else sum_list (map (session_successfulJobs rt)
               (filter (\<lambda>s. truthy s \<and> is_object s) (array_or_empty (js_get raw ''sessions'')))))"
proof -
  have c1: "session_totalJobs rt session =
     (if js_Number rt (js_get session ''total_jobs'') = NaN then Fin 0
      else js_Number rt (js_get session ''total_jobs''))"
    by (simp add: session_totalJobs_def num_or_zero_eq)
  have c2: "session_successfulJobs rt session =
     (if js_Number rt (js_get session ''successful_jobs'') = NaN then Fin 0
      else js_Number rt (js_get session ''successful_jobs''))"
    by (simp add: session_successfulJobs_def num_or_zero_eq)
  have c3: "truthy session \<and> is_object session \<longrightarrow>
        map_option si_total_jobs_sum
          (map_of (session_step rt idx byInstance session) (session_key rt idx session)) =
        Some ((case map_of byInstance (session_key rt idx session) of
                 Some b0 \<Rightarrow> si_total_jobs_sum b0 | None \<Rightarrow> 0) + session_totalJobs rt session)
        \<and> map_option si_successful_jobs_sum
          (map_of (session_step rt idx byInstance session) (session_key rt idx session)) =
        Some ((case map_of byInstance (session_key rt idx session) of
                 Some b0 \<Rightarrow> si_successful_jobs_sum b0 | None \<Rightarrow> 0)
              + session_successfulJobs rt session)"
    by (simp add: session_step_def session_bucket_def session_key_def Let_def update_conv'
        zero_jsnum_def split: option.splits)
  have c4: "sum_list (map (si_total_jobs_sum \<circ> snd) (snd (aggregateSessionsFromRaw rt raw idx))) =
       (if \<not> truthy raw \<or> truthy (js_get raw ''error'') then 0
        else sum_list (map (session_totalJobs rt)
               (filter (\<lambda>s. truthy s \<and> is_object s) (array_or_empty (js_get raw ''sessions'')))))"
    by (simp add: aggregateSessionsFromRaw_def Let_def sessions_loop_total_jobs_sum)
  have c5: "sum_list (map (si_successful_jobs_sum \<circ> snd) (snd (aggregateSessionsFromRaw rt raw idx))) =
       (if \<not> truthy raw \<or> truthy (js_get raw ''error'') then 0
        else sum_list (map (session_successfulJobs rt)
               (filter (\<lambda>s. truthy s \<and> is_object s) (array_or_empty (js_get raw ''sessions'')))))"
    by (simp add: aggregateSessionsFromRaw_def Let_def sessions_loop_successful_jobs_sum)
  show ?thesis
    using c1 c2 c3 c4 c5 by blast
qed

theorem session_jobs_contribution_witness:
  "session_totalJobs sample_runtime
     (JObj [(''total_jobs'', JNum (Fin 3)), (''successful_jobs'', JStr ''n/a'')]) = Fin 3
   \<and> session_successfulJobs sample_runtime
     (JObj [(''total_jobs'', JNum (Fin 3)), (''successful_jobs'', JStr ''n/a'')]) = Fin 0
   \<and> map_option si_total_jobs_sum
       (map_of (session_step sample_runtime empty_registry_index []
                  (JObj [(''total_jobs'', JNum (Fin 3)), (''successful_jobs'', JStr ''n/a'')]))
               (session_key sample_runtime empty_registry_index
                  (JObj [(''total_jobs'', JNum (Fin 3)), (''successful_jobs'', JStr ''n/a'')])))
     = Some (Fin 3)"
proof -
  have n1: "js_Number sample_runtime
      (js_get (JObj [(''total_jobs'', JNum (Fin 3)), (''successful_jobs'', JStr ''n/a'')])
         ''total_jobs'') = Fin 3"
    by code_simp
  have n2: "js_Number sample_runtime
      (js_get (JObj [(''total_jobs'', JNum (Fin 3)), (''successful_jobs'', JStr ''n/a'')])
         ''successful_jobs'') = NaN"
    by code_simp
  have h: "truthy (JObj [(''total_jobs'', JNum (Fin 3)), (''successful_jobs'', JStr ''n/a'')])
      \<and> is_object (JObj [(''total_jobs'', JNum (Fin 3)), (''successful_jobs'', JStr ''n/a'')])"
    by simp
  note t = session_jobs_contribution [of sample_runtime
        "JObj [(''total_jobs'', JNum (Fin 3)), (''successful_jobs'', JStr ''n/a'')]"
        empty_registry_index "[]" JNull]
  from t n1 have a: "session_totalJobs sample_runtime
     (JObj [(''total_jobs'', JNum (Fin 3)), (''successful_jobs'', JStr ''n/a'')]) = Fin 3"
    by simp
  from t n2 have b: "session_successfulJobs sample_runtime
     (JObj [(''total_jobs'', JNum (Fin 3)), (''successful_jobs'', JStr ''n/a'')]) = Fin 0"
    by simp
  note m = t [THEN conjunct2, THEN conjunct2, THEN conjunct1, rule_format, OF h, THEN conjunct1]
  from m have c: "map_option si_total_jobs_sum
       (map_of (session_step sample_runtime empty_registry_index []
                  (JObj [(''total_jobs'', JNum (Fin 3)), (''successful_jobs'', JStr ''n/a'')]))
               (session_key sample_runtime empty_registry_index
                  (JObj [(''total_jobs'', JNum (Fin 3)), (''successful_jobs'', JStr ''n/a'')])))
     = Some (Fin 3)"
    unfolding a by (simp add: zero_jsnum_def)
  show ?thesis
    using a b c by blast
qed

text \<open>
  C6 as stated fails: a session whose \<^verbatim>\<open>total_jobs\<close> is infinite (the JSON number
  \<^verbatim>\<open>1e999\<close> parses to \<^verbatim>\<open>Infinity\<close>) adds \<^verbatim>\<open>Infinity\<close>, not 0, to the job sum.
\<close>

theorem session_infinite_jobs_counterexample:
  "session_totalJobs sample_runtime (JObj [(''total_jobs'', JNum PosInf)]) = PosInf
   \<and> map (\<lambda>(k, b). (k, si_total_jobs_sum b))
       (snd (aggregateSessionsFromRaw sample_runtime
          (JObj [(''sessions'', JArr [JObj [(''total_jobs'', JNum PosInf)]])])
          empty_registry_index))
     = [(''unknown_fi__unknown'', PosInf)]
   \<and> map (\<lambda>(k, b). (k, sf_total_jobs_sum b))
       (fst (aggregateSessionsFromRaw sample_runtime
          (JObj [(''sessions'', JArr [JObj [(''total_jobs'', JNum PosInf)]])])
          empty_registry_index))
     = [(''unknown_fi'', PosInf)]"
  by code_simp

subsection \<open>Writing the daily file\<close>


lemma tmp_path_not_same_day: "dailyTmpPath baseDir day nonce \<noteq> dailyFilePath baseDir day"
proof
  assume "dailyTmpPath baseDir day nonce = dailyFilePath baseDir day"
  then have "length (dailyTmpPath baseDir day nonce) = length (dailyFilePath baseDir day)"
    by simp
  then show False
    by (simp add: dailyTmpPath_def dailyFilePath_def)
qed

lemma writeDailyFile_apply:
  "writeDailyFile fs baseDir day doc nonce p =
     (if p = dailyFilePath baseDir day then Some (Complete doc)
      else if p = dailyTmpPath baseDir day nonce then None
      else fs p)"
  using tmp_path_not_same_day [of baseDir day nonce]
  by (simp add: writeDailyFile_def writeDailyFile_ops_def)

lemma last_fs_op_states: "last (fs_op_states size_of fs op) = fs_op_apply fs op"
  by (cases op) simp_all

lemma fs_op_states_nonempty: "fs_op_states size_of fs op \<noteq> []"
  by (cases op) simp_all

text \<open>
  C9. \<^verbatim>\<open>writeDailyFile\<close> first writes the whole document to a temporary sibling of the
  target (a different path in the same directory) and then renames that file over the
  dated target. In every state of the file system that can be observed while it runs, the
  target holds what it held before or the complete new document, never a partial one;
  when it has finished, the target holds the complete new document.
\<close>

theorem writeDailyFile_atomic:
  "writeDailyFile_ops baseDir day doc nonce =
     [WriteFile (dailyTmpPath baseDir day nonce) doc,
      Rename (dailyTmpPath baseDir day nonce) (dailyFilePath baseDir day)]
   \<and> dailyTmpPath baseDir day nonce \<noteq> dailyFilePath baseDir day
   \<and> take (length baseDir + 1) (dailyTmpPath baseDir day nonce) = baseDir @ ''/''
   \<and> take (length baseDir + 1) (dailyFilePath baseDir day) = baseDir @ ''/''
   \<and> (\<forall>s \<in> set (fs_ops_states size_of fs (writeDailyFile_ops baseDir day doc nonce)).
         s (dailyFilePath baseDir day) = fs (dailyFilePath baseDir day)
         \<or> s (dailyFilePath baseDir day) = Some (Complete doc))
   \<and> last (fs_ops_states size_of fs (writeDailyFile_ops baseDir day doc nonce)) =
       writeDailyFile fs baseDir day doc nonce
   \<and> writeDailyFile fs baseDir day doc nonce (dailyFilePath baseDir day) = Some (Complete doc)"
proof -
  have ne: "dailyTmpPath baseDir day nonce \<noteq> dailyFilePath baseDir day"
    by (rule tmp_path_not_same_day)
  have sib1: "take (length baseDir + 1) (dailyTmpPath baseDir day nonce) = baseDir @ ''/''"
    by (simp add: dailyTmpPath_def)
  have sib2: "take (length baseDir + 1) (dailyFilePath baseDir day) = baseDir @ ''/''"
    by (simp add: dailyFilePath_def)
  have obs: "\<forall>s \<in> set (fs_ops_states size_of fs (writeDailyFile_ops baseDir day doc nonce)).
         s (dailyFilePath baseDir day) = fs (dailyFilePath baseDir day)
         \<or> s (dailyFilePath baseDir day) = Some (Complete doc)"
    using ne by (auto simp: writeDailyFile_ops_def)
  have fin: "last (fs_ops_states size_of fs (writeDailyFile_ops baseDir day doc nonce)) =
       writeDailyFile fs baseDir day doc nonce"
    by (simp add: writeDailyFile_ops_def writeDailyFile_def)
  have res: "writeDailyFile fs baseDir day doc nonce (dailyFilePath baseDir day) = Some (Complete doc)"
    by (simp add: writeDailyFile_apply)
  show ?thesis
    using ne sib1 sib2 obs fin res by (simp add: writeDailyFile_ops_def)
qed

theorem writeDailyFile_atomic_witness:
  "[Map.empty(dailyTmpPath ''data/daily'' ''2025-03-01'' ''77-1700000000000-9f3a'' \<mapsto>
        Partial \<lparr>doc_date = ''2025-03-01'',
                 doc_sources = \<lparr>src_ga = False, src_sis_sessions = False, src_sis_placements = False\<rparr>,
                 doc_fi = [], doc_fi_instances = []\<rparr> 0)]
     = take 1 (fs_ops_states (\<lambda>d. 2) Map.empty
         (writeDailyFile_ops ''data/daily'' ''2025-03-01''
            \<lparr>doc_date = ''2025-03-01'',
             doc_sources = \<lparr>src_ga = False, src_sis_sessions = False, src_sis_placements = False\<rparr>,
             doc_fi = [], doc_fi_instances = []\<rparr> ''77-1700000000000-9f3a''))
   \<and> writeDailyFile Map.empty ''data/daily'' ''2025-03-01''
        \<lparr>doc_date = ''2025-03-01'',
         doc_sources = \<lparr>src_ga = False, src_sis_sessions = False, src_sis_placements = False\<rparr>,
         doc_fi = [], doc_fi_instances = []\<rparr> ''77-1700000000000-9f3a''
        (dailyFilePath ''data/daily'' ''2025-03-01'')
      = Some (Complete \<lparr>doc_date = ''2025-03-01'',
         doc_sources = \<lparr>src_ga = False, src_sis_sessions = False, src_sis_placements = False\<rparr>,
         doc_fi = [], doc_fi_instances = []\<rparr>)
   \<and> (Map.empty(dailyTmpPath ''data/daily'' ''2025-03-01'' ''77-1700000000000-9f3a'' \<mapsto>
        Partial \<lparr>doc_date = ''2025-03-01'',
                 doc_sources = \<lparr>src_ga = False, src_sis_sessions = False, src_sis_placements = False\<rparr>,
                 doc_fi = [], doc_fi_instances = []\<rparr> 0))
        (dailyFilePath ''data/daily'' ''2025-03-01'') = None"
proof -
  let ?doc = "\<lparr>doc_date = ''2025-03-01'',
         doc_sources = \<lparr>src_ga = False, src_sis_sessions = False, src_sis_placements = False\<rparr>,
         doc_fi = [], doc_fi_instances = []\<rparr>"
  let ?tmp = "dailyTmpPath ''data/daily'' ''2025-03-01'' ''77-1700000000000-9f3a''"
  let ?s = "(Map.empty(?tmp \<mapsto> Partial ?doc 0)) :: file_system"
  note t = writeDailyFile_atomic [of "''data/daily''" "''2025-03-01''" ?doc
      "''77-1700000000000-9f3a''" "\<lambda>d. 2" Map.empty]
  have first: "[?s] = take 1 (fs_ops_states (\<lambda>d. 2) Map.empty
         (writeDailyFile_ops ''data/daily'' ''2025-03-01'' ?doc ''77-1700000000000-9f3a''))"
    by (simp add: writeDailyFile_ops_def upt_rec)
  have mem: "?s \<in> set (fs_ops_states (\<lambda>d. 2) Map.empty
         (writeDailyFile_ops ''data/daily'' ''2025-03-01'' ?doc ''77-1700000000000-9f3a''))"
    by (simp add: writeDailyFile_ops_def upt_rec)
  from t mem have "?s (dailyFilePath ''data/daily'' ''2025-03-01'') = Map.empty (dailyFilePath ''data/daily'' ''2025-03-01'')
      \<or> ?s (dailyFilePath ''data/daily'' ''2025-03-01'') = Some (Complete ?doc)"
    by blast
  moreover have "?s (dailyFilePath ''data/daily'' ''2025-03-01'') \<noteq> Some (Complete ?doc)"
    using t by simp
  ultimately have old: "?s (dailyFilePath ''data/daily'' ''2025-03-01'') = None"
    by simp
  from t have new: "writeDailyFile Map.empty ''data/daily'' ''2025-03-01'' ?doc ''77-1700000000000-9f3a''
        (dailyFilePath ''data/daily'' ''2025-03-01'') = Some (Complete ?doc)"
    by blast
  show ?thesis
    using first old new by blast
qed

subsection \<open>The range driver\<close>


lemma aggregateSessionsFromRaw_no_sessions:
  "array_or_empty (js_get raw ''sessions'') = [] \<Longrightarrow> aggregateSessionsFromRaw rt raw idx = ([], [])"
  by (simp add: aggregateSessionsFromRaw_def)


lemma buildDailyDocument_empty:
  "buildDailyDocument rt day [] [] [] [] [] [] =
     \<lparr>doc_date = day,
      doc_sources = \<lparr>src_ga = False, src_sis_sessions = False, src_sis_placements = False\<rparr>,
      doc_fi = [], doc_fi_instances = []\<rparr>"
  by (simp add: buildDailyDocument_def set_of_keys_def)




lemma file_path_not_tmp_path:
  assumes "DAILY_FORMAT d"
  shows "dailyFilePath DAILY_OUTPUT_DIR d \<noteq> dailyTmpPath DAILY_OUTPUT_DIR d' n"
proof
  assume "dailyFilePath DAILY_OUTPUT_DIR d = dailyTmpPath DAILY_OUTPUT_DIR d' n"
  then have "d @ ''.json'' = ''.'' @ d' @ ''.json.tmp-'' @ n"
    by (simp add: dailyFilePath_def dailyTmpPath_def)
  then have "hd (d @ ''.json'') = CHR ''.''"
    by simp
  moreover from assms obtain c cs where "d = c # cs" "is_digit c"
    by (auto simp: DAILY_FORMAT_def split: list.splits)
  ultimately show False
    by (auto simp: is_digit_def)
qed

lemma days_loop_two_runs:
  assumes "\<And>d n. p \<noteq> dailyTmpPath DAILY_OUTPUT_DIR d n"
  shows "fst (days_loop rt idx readRaw nonceA i fsA days) =
         fst (days_loop rt idx readRaw nonceB j fsB days)
       \<and> (snd (days_loop rt idx readRaw nonceA i fsA days) p =
            snd (days_loop rt idx readRaw nonceB j fsB days) p
          \<or> (snd (days_loop rt idx readRaw nonceA i fsA days) p = fsA p
              \<and> snd (days_loop rt idx readRaw nonceB j fsB days) p = fsB p))"
proof (induction days arbitrary: i j fsA fsB)
  case Nil
  show ?case by simp
next
  case (Cons day days)
  show ?case
  proof (cases "allSourcesMissing [readRaw ''ga'' day, readRaw ''sessions'' day, readRaw ''placements'' day]")
    case True
    then show ?thesis
      using Cons.IH [of "i + 1" fsA "j + 1" fsB] by simp
  next
    case False
    show ?thesis
    proof (cases "day_document rt idx readRaw day")
      case (Inl e)
      with False show ?thesis by simp
    next
      case (Inr doc)
      let ?A = "writeDailyFile fsA DAILY_OUTPUT_DIR day doc (nonceA i)"
      let ?B = "writeDailyFile fsB DAILY_OUTPUT_DIR day doc (nonceB j)"
      have w: "?A p = ?B p \<or> (?A p = fsA p \<and> ?B p = fsB p)"
        using assms by (simp add: writeDailyFile_apply)
      from Cons.IH [of "i + 1" ?A "j + 1" ?B] w False Inr show ?thesis
        by auto
    qed
  qed
qed

text \<open>
  C3. Two runs of the range driver over the same dates with the same raw payloads and the
  same registry end the same way and leave the same document in the file of every day,
  whatever the temporary-file nonces (process id, clock, random number) of the two runs
  are and whatever the output directory held before: for every day, either both runs
  leave the file of the day untouched or both leave the same complete document there.
  In particular a second run started on the output of the first changes no daily file.
\<close>

theorem range_driver_idempotent:
  assumes "DAILY_FORMAT d"
  shows "fst (buildDailyFromRawRange rt registry readRaw nonce2 dates
                (snd (buildDailyFromRawRange rt registry readRaw nonce1 dates fs)))
         = fst (buildDailyFromRawRange rt registry readRaw nonce1 dates fs)
   \<and> snd (buildDailyFromRawRange rt registry readRaw nonce2 dates
            (snd (buildDailyFromRawRange rt registry readRaw nonce1 dates fs)))
         (dailyFilePath DAILY_OUTPUT_DIR d)
       = snd (buildDailyFromRawRange rt registry readRaw nonce1 dates fs)
           (dailyFilePath DAILY_OUTPUT_DIR d)
   \<and> (snd (buildDailyFromRawRange rt registry readRaw nonce1 dates fs)
           (dailyFilePath DAILY_OUTPUT_DIR d)
        = snd (buildDailyFromRawRange rt registry readRaw nonce2 dates fs')
           (dailyFilePath DAILY_OUTPUT_DIR d)
       \<or> (snd (buildDailyFromRawRange rt registry readRaw nonce1 dates fs)
             (dailyFilePath DAILY_OUTPUT_DIR d) = fs (dailyFilePath DAILY_OUTPUT_DIR d)
           \<and> snd (buildDailyFromRawRange rt registry readRaw nonce2 dates fs')
             (dailyFilePath DAILY_OUTPUT_DIR d) = fs' (dailyFilePath DAILY_OUTPUT_DIR d)))"
proof (cases "buildRegistryIndex rt registry")
  case (Inl e)
  then show ?thesis
    by (simp add: buildDailyFromRawRange_def)
next
  case (Inr idx)
  let ?p = "dailyFilePath DAILY_OUTPUT_DIR d"
  let ?run1 = "days_loop rt idx readRaw nonce1 0 fs dates"
  have np: "\<And>d' n. ?p \<noteq> dailyTmpPath DAILY_OUTPUT_DIR d' n"
    using assms by (rule file_path_not_tmp_path)
  have again: "fst ?run1 = fst (days_loop rt idx readRaw nonce2 0 (snd ?run1) dates)
       \<and> (snd ?run1 ?p = snd (days_loop rt idx readRaw nonce2 0 (snd ?run1) dates) ?p
          \<or> (snd ?run1 ?p = fs ?p
              \<and> snd (days_loop rt idx readRaw nonce2 0 (snd ?run1) dates) ?p = snd ?run1 ?p))"
    using np by (rule days_loop_two_runs)
  have other: "fst ?run1 = fst (days_loop rt idx readRaw nonce2 0 fs' dates)
       \<and> (snd ?run1 ?p = snd (days_loop rt idx readRaw nonce2 0 fs' dates) ?p
          \<or> (snd ?run1 ?p = fs ?p
              \<and> snd (days_loop rt idx readRaw nonce2 0 fs' dates) ?p = fs' ?p))"
    using np by (rule days_loop_two_runs)
  from again other Inr show ?thesis
    by (auto simp: buildDailyFromRawRange_def)
qed

theorem range_driver_idempotent_witness:
  "fst (buildDailyFromRawRange sample_runtime (JObj [])
          (\<lambda>type day.
             if type = ''sessions''
             then JObj [(''date'', JStr day), (''sessions'', JArr [])] else JNull)
          (\<lambda>i. ''78-1700000360000-51c2'') [''2025-03-01'']
          (snd (buildDailyFromRawRange sample_runtime (JObj [])
             (\<lambda>type day.
                if type = ''sessions''
                then JObj [(''date'', JStr day), (''sessions'', JArr [])] else JNull)
             (\<lambda>i. ''77-1700000000000-9f3a'') [''2025-03-01''] Map.empty)))
     = None
   \<and> snd (buildDailyFromRawRange sample_runtime (JObj [])
          (\<lambda>type day.
             if type = ''sessions''
             then JObj [(''date'', JStr day), (''sessions'', JArr [])] else JNull)
          (\<lambda>i. ''78-1700000360000-51c2'') [''2025-03-01'']
          (snd (buildDailyFromRawRange sample_runtime (JObj [])
             (\<lambda>type day.
                if type = ''sessions''
                then JObj [(''date'', JStr day), (''sessions'', JArr [])] else JNull)
             (\<lambda>i. ''77-1700000000000-9f3a'') [''2025-03-01''] Map.empty)))
       (dailyFilePath DAILY_OUTPUT_DIR ''2025-03-01'')
     = Some (Complete
         \<lparr>doc_date = ''2025-03-01'',
          doc_sources = \<lparr>src_ga = False, src_sis_sessions = False, src_sis_placements = False\<rparr>,
          doc_fi = [], doc_fi_instances = []\<rparr>)"
proof -
  let ?rr = "(\<lambda>type day.
             if type = ''sessions''
             then JObj [(''date'', JStr day), (''sessions'', JArr [])] else JNull) :: raw_store"
  let ?n1 = "(\<lambda>i. ''77-1700000000000-9f3a'') :: nat \<Rightarrow> string"
  let ?n2 = "(\<lambda>i. ''78-1700000360000-51c2'') :: nat \<Rightarrow> string"
  have f: "DAILY_FORMAT ''2025-03-01''"
    by code_simp
  have r1: "buildDailyFromRawRange sample_runtime (JObj []) ?rr ?n1 [''2025-03-01''] Map.empty
      = (None, writeDailyFile Map.empty DAILY_OUTPUT_DIR ''2025-03-01''
           \<lparr>doc_date = ''2025-03-01'',
            doc_sources = \<lparr>src_ga = False, src_sis_sessions = False, src_sis_placements = False\<rparr>,
            doc_fi = [], doc_fi_instances = []\<rparr> ''77-1700000000000-9f3a'')"
    by (simp add: buildDailyFromRawRange_def buildRegistryIndex_def allSourcesMissing_def
        day_document_def aggregateGaFromRaw_def aggregateSessionsFromRaw_no_sessions
        aggregatePlacementsFromRaw_def buildDailyDocument_empty)
  note t = range_driver_idempotent [OF f, of sample_runtime "JObj []" ?rr ?n2 "[''2025-03-01'']"
      ?n1 Map.empty Map.empty]
  from t r1 show ?thesis
    by (simp add: writeDailyFile_apply)
qed

subsection \<open>Placements: the termination breakdown\<close>

lemma sum_bump: "sum_list (map snd (bump k n freq)) = sum_list (map snd freq) + n"
  unfolding bump_def
proof (induction freq)
  case Nil
  show ?case by simp
next
  case (Cons p freq)
  then show ?case by (cases p) simp
qed

lemma map_of_bump:
  "map_of (bump k n freq) k' =
     (if k' = k then Some ((case map_of freq k of Some c \<Rightarrow> c | None \<Rightarrow> 0) + n)
      else map_of freq k')"
  by (simp add: bump_def update_conv')

lemma sum_foldl_bump:
  "sum_list (map snd (foldl (\<lambda>freq (term, count). bump term count freq) freq entries)) =
     sum_list (map snd freq) + sum_list (map snd entries)"
  by (induction entries arbitrary: freq) (auto simp: sum_bump)

lemma values_update: "snd ` set (AList.update k v al) \<subseteq> insert v (snd ` set al)"
  by (induction al) auto

lemma all_values_update:
  assumes "\<forall>b \<in> snd ` set al. P b" and "P v"
  shows "\<forall>b \<in> snd ` set (AList.update k v al). P b"
  using assms values_update [of k v al] by blast

lemma placement_bucket_total:
  "pi_total_placements (placement_bucket rt idx byInstance placement) =
     (case map_of byInstance (placement_key rt idx placement) of
        Some b \<Rightarrow> pi_total_placements b | None \<Rightarrow> 0) + 1"
  by (simp add: placement_bucket_def placement_key_def Let_def split: option.splits)

lemma placement_bucket_by_termination:
  "pi_by_termination (placement_bucket rt idx byInstance placement) =
     bump (placement_termination rt placement) 1
       (case map_of byInstance (placement_key rt idx placement) of
          Some b \<Rightarrow> pi_by_termination b | None \<Rightarrow> [])"
  by (simp add: placement_bucket_def placement_key_def Let_def split: option.splits)

lemma placement_step_balanced:
  assumes "\<forall>b \<in> snd ` set byInstance. sum_list (map snd (pi_by_termination b)) = pi_total_placements b"
  shows "\<forall>b \<in> snd ` set (placement_step rt idx byInstance placement).
           sum_list (map snd (pi_by_termination b)) = pi_total_placements b"
proof (cases "truthy placement \<and> is_object placement")
  case False
  with assms show ?thesis by (auto simp: placement_step_def)
next
  case True
  let ?k = "placement_key rt idx placement"
  let ?b = "placement_bucket rt idx byInstance placement"
  have new: "sum_list (map snd (pi_by_termination ?b)) = pi_total_placements ?b"
  proof (cases "map_of byInstance ?k")
    case None
    then show ?thesis
      by (simp add: placement_bucket_total placement_bucket_by_termination sum_bump)
  next
    case (Some b0)
    then have "b0 \<in> snd ` set byInstance"
      by (force dest: map_of_SomeD)
    with assms have "sum_list (map snd (pi_by_termination b0)) = pi_total_placements b0"
      by blast
    with Some show ?thesis
      by (simp add: placement_bucket_total placement_bucket_by_termination sum_bump)
  qed
  from True have "placement_step rt idx byInstance placement = AList.update ?k ?b byInstance"
    by (simp add: placement_step_def)
  moreover have "\<forall>b \<in> snd ` set (AList.update ?k ?b byInstance).
      sum_list (map snd (pi_by_termination b)) = pi_total_placements b"
    using assms new by (rule all_values_update)
  ultimately show ?thesis
    by simp
qed

lemma placements_loop_balanced:
  assumes "\<forall>b \<in> snd ` set byInstance. sum_list (map snd (pi_by_termination b)) = pi_total_placements b"
  shows "\<forall>b \<in> snd ` set (foldl (placement_step rt idx) byInstance placements).
           sum_list (map snd (pi_by_termination b)) = pi_total_placements b"
  using assms
proof (induction placements arbitrary: byInstance)
  case Nil
  then show ?case by simp
next
  case (Cons p ps)
  from Cons.IH [OF placement_step_balanced [OF Cons.prems]] show ?case by simp
qed

lemma placement_fi_step_balanced:
  assumes "\<forall>b \<in> snd ` set byFi. sum_list (map snd (by_termination b)) = total_placements b"
    and "sum_list (map snd (pi_by_termination entry)) = pi_total_placements entry"
  shows "\<forall>b \<in> snd ` set (placement_fi_step byFi entry).
           sum_list (map snd (by_termination b)) = total_placements b"
proof (cases "placement_entry_fiKey entry = []")
  case True
  with assms show ?thesis by (simp add: placement_fi_step_def)
next
  case False
  let ?k = "placement_entry_fiKey entry"
  let ?old = "case map_of byFi ?k of
                Some b \<Rightarrow> b
              | None \<Rightarrow> \<lparr>total_placements = 0, successful_placements = 0, by_termination = []\<rparr>"
  let ?new = "\<lparr>total_placements = total_placements ?old + pi_total_placements entry,
              successful_placements = successful_placements ?old + pi_successful_placements entry,
              by_termination = foldl (\<lambda>freq (term, count). bump term count freq)
                                 (by_termination ?old) (pi_by_termination entry)\<rparr>"
  have old: "sum_list (map snd (by_termination ?old)) = total_placements ?old"
  proof (cases "map_of byFi ?k")
    case None
    then show ?thesis by simp
  next
    case (Some b0)
    then have "b0 \<in> snd ` set byFi"
      by (force dest: map_of_SomeD)
    with assms(1) have "sum_list (map snd (by_termination b0)) = total_placements b0"
      by blast
    with Some show ?thesis by simp
  qed
  have new: "sum_list (map snd (by_termination ?new)) = total_placements ?new"
    using old assms(2) by (simp add: sum_foldl_bump)
  from False have "placement_fi_step byFi entry = AList.update ?k ?new byFi"
    by (simp add: placement_fi_step_def Let_def)
  moreover have "\<forall>b \<in> snd ` set (AList.update ?k ?new byFi).
      sum_list (map snd (by_termination b)) = total_placements b"
    using assms(1) new by (rule all_values_update)
  ultimately show ?thesis
    by simp
qed

lemma placements_fi_loop_balanced:
  assumes "\<forall>b \<in> snd ` set byFi. sum_list (map snd (by_termination b)) = total_placements b"
    and "\<forall>e \<in> set entries. sum_list (map snd (pi_by_termination e)) = pi_total_placements e"
  shows "\<forall>b \<in> snd ` set (foldl placement_fi_step byFi entries).
           sum_list (map snd (by_termination b)) = total_placements b"
  using assms
proof (induction entries arbitrary: byFi)
  case Nil
  then show ?case by simp
next
  case (Cons e es)
  have "\<forall>b \<in> snd ` set (placement_fi_step byFi e).
           sum_list (map snd (by_termination b)) = total_placements b"
    using Cons.prems by (intro placement_fi_step_balanced) simp_all
  from Cons.IH [OF this] Cons.prems(2) show ?case by simp
qed

lemma aggregatePlacements_instances_balanced:
  "\<forall>b \<in> snd ` set (snd (aggregatePlacementsFromRaw rt raw idx)).
      sum_list (map snd (pi_by_termination b)) = pi_total_placements b"
proof (cases "\<not> truthy raw \<or> truthy (js_get raw ''error'')")
  case True
  then show ?thesis by (simp add: aggregatePlacementsFromRaw_def)
next
  case False
  have "\<forall>b \<in> snd ` set (foldl (placement_step rt idx) []
            (array_or_empty (js_get raw ''placements''))).
      sum_list (map snd (pi_by_termination b)) = pi_total_placements b"
    by (rule placements_loop_balanced) simp
  with False show ?thesis
    by (simp add: aggregatePlacementsFromRaw_def Let_def)
qed

lemma aggregatePlacements_fi_balanced:
  "\<forall>b \<in> snd ` set (fst (aggregatePlacementsFromRaw rt raw idx)).
      sum_list (map snd (by_termination b)) = total_placements b"
proof (cases "\<not> truthy raw \<or> truthy (js_get raw ''error'')")
  case True
  then show ?thesis by (simp add: aggregatePlacementsFromRaw_def)
next
  case False
  let ?byInstance = "foldl (placement_step rt idx) [] (array_or_empty (js_get raw ''placements''))"
  have i: "\<forall>b \<in> snd ` set ?byInstance.
      sum_list (map snd (pi_by_termination b)) = pi_total_placements b"
    by (rule placements_loop_balanced) simp
  have "\<forall>b \<in> snd ` set (foldl placement_fi_step [] (map snd ?byInstance)).
      sum_list (map snd (by_termination b)) = total_placements b"
    using i by (intro placements_fi_loop_balanced) simp_all
  with False show ?thesis
    by (simp add: aggregatePlacementsFromRaw_def Let_def)
qed

lemma fe_placements_build_fi_entry:
  "fe_placements (build_fi_entry rt gF sF pF k) =
     (case map_of pF k of
        Some b \<Rightarrow> b
      | None \<Rightarrow> \<lparr>total_placements = 0, successful_placements = 0, by_termination = []\<rparr>)"
  by (simp add: build_fi_entry_def Let_def)

lemma ie_placements_build_fi_instance_entry:
  "ie_placements (build_fi_instance_entry gI sI pI k) =
     (case map_of pI k of
        Some b \<Rightarrow> \<lparr>total_placements = pi_total_placements b,
                   successful_placements = pi_successful_placements b,
                   by_termination = pi_by_termination b\<rparr>
      | None \<Rightarrow> \<lparr>total_placements = 0, successful_placements = 0, by_termination = []\<rparr>)"
  by (simp add: build_fi_instance_entry_def Let_def split: option.splits prod.splits)

lemma doc_fi_entries:
  "e \<in> snd ` set (doc_fi (buildDailyDocument rt day gF gI sF sI pF pI)) \<Longrightarrow>
     \<exists>k. e = build_fi_entry rt gF sF pF k"
  by (auto simp: buildDailyDocument_def Let_def)

lemma doc_fi_instances_entries:
  "e \<in> snd ` set (doc_fi_instances (buildDailyDocument rt day gF gI sF sI pF pI)) \<Longrightarrow>
     \<exists>k. e = build_fi_instance_entry gI sI pI k"
  by (auto simp: buildDailyDocument_def Let_def)

text \<open>
  C10. In every per-instance bucket and every per-FI bucket the Placements aggregator
  returns, and in the \<^verbatim>\<open>placements\<close> part of every \<^verbatim>\<open>fi\<close> and
  \<^verbatim>\<open>fi_instances\<close> entry of a document built from them, the counts of
  \<^verbatim>\<open>by_termination\<close> add up to \<^verbatim>\<open>total_placements\<close>. A placement record adds 1
  to \<^verbatim>\<open>total_placements\<close> of its bucket and 1 to the count of its termination key
  and leaves every other termination count as it was, whether or not it counts as
  successful.
\<close>

theorem placements_termination_partition:
  "(\<forall>b \<in> snd ` set (snd (aggregatePlacementsFromRaw rt raw idx)).
      sum_list (map snd (pi_by_termination b)) = pi_total_placements b)
   \<and> (\<forall>b \<in> snd ` set (fst (aggregatePlacementsFromRaw rt raw idx)).
      sum_list (map snd (by_termination b)) = total_placements b)
   \<and> (\<forall>e \<in> snd ` set (doc_fi (buildDailyDocument rt day gF gI sF sI
                               (fst (aggregatePlacementsFromRaw rt raw idx))
                               (snd (aggregatePlacementsFromRaw rt raw idx)))).
      sum_list (map snd (by_termination (fe_placements e))) = total_placements (fe_placements e))
   \<and> (\<forall>e \<in> snd ` set (doc_fi_instances (buildDailyDocument rt day gF gI sF sI
                               (fst (aggregatePlacementsFromRaw rt raw idx))
                               (snd (aggregatePlacementsFromRaw rt raw idx)))).
      sum_list (map snd (by_termination (ie_placements e))) = total_placements (ie_placements e))
   \<and> pi_total_placements (placement_bucket rt idx byInstance placement) =
       (case map_of byInstance (placement_key rt idx placement) of
          Some b \<Rightarrow> pi_total_placements b | None \<Rightarrow> 0) + 1
   \<and> map_of (pi_by_termination (placement_bucket rt idx byInstance placement)) term =
       (let before = (case map_of byInstance (placement_key rt idx placement) of
                        Some b \<Rightarrow> pi_by_termination b | None \<Rightarrow> [])
        in if term = placement_termination rt placement
           then Some ((case map_of before term of Some c \<Rightarrow> c | None \<Rightarrow> 0) + 1)
           else map_of before term)"
proof -
  let ?pF = "fst (aggregatePlacementsFromRaw rt raw idx)"
  let ?pI = "snd (aggregatePlacementsFromRaw rt raw idx)"
  note inst = aggregatePlacements_instances_balanced [of rt raw idx]
  note fi = aggregatePlacements_fi_balanced [of rt raw idx]
  have dfi: "\<forall>e \<in> snd ` set (doc_fi (buildDailyDocument rt day gF gI sF sI ?pF ?pI)).
      sum_list (map snd (by_termination (fe_placements e))) = total_placements (fe_placements e)"
  proof
    fix e assume "e \<in> snd ` set (doc_fi (buildDailyDocument rt day gF gI sF sI ?pF ?pI))"
    then obtain k where e: "e = build_fi_entry rt gF sF ?pF k"
      using doc_fi_entries by blast
    show "sum_list (map snd (by_termination (fe_placements e))) = total_placements (fe_placements e)"
    proof (cases "map_of ?pF k")
      case None
      with e show ?thesis by (simp add: fe_placements_build_fi_entry)
    next
      case (Some b)
      then have "b \<in> snd ` set ?pF" by (force dest: map_of_SomeD)
      with fi have "sum_list (map snd (by_termination b)) = total_placements b"
        by blast
      with Some e show ?thesis by (simp add: fe_placements_build_fi_entry)
    qed
  qed
  have dinst: "\<forall>e \<in> snd ` set (doc_fi_instances (buildDailyDocument rt day gF gI sF sI ?pF ?pI)).
      sum_list (map snd (by_termination (ie_placements e))) = total_placements (ie_placements e)"
  proof
    fix e assume "e \<in> snd ` set (doc_fi_instances (buildDailyDocument rt day gF gI sF sI ?pF ?pI))"
    then obtain k where e: "e = build_fi_instance_entry gI sI ?pI k"
      using doc_fi_instances_entries by blast
    show "sum_list (map snd (by_termination (ie_placements e))) = total_placements (ie_placements e)"
    proof (cases "map_of ?pI k")
      case None
      with e show ?thesis by (simp add: ie_placements_build_fi_instance_entry)
    next
      case (Some b)
      then have "b \<in> snd ` set ?pI" by (force dest: map_of_SomeD)
      with inst have "sum_list (map snd (pi_by_termination b)) = pi_total_placements b"
        by blast
      with Some e show ?thesis by (simp add: ie_placements_build_fi_instance_entry)
    qed
  qed
  have step: "map_of (pi_by_termination (placement_bucket rt idx byInstance placement)) term =
       (let before = (case map_of byInstance (placement_key rt idx placement) of
                        Some b \<Rightarrow> pi_by_termination b | None \<Rightarrow> [])
        in if term = placement_termination rt placement
           then Some ((case map_of before term of Some c \<Rightarrow> c | None \<Rightarrow> 0) + 1)
           else map_of before term)"
    by (simp add: placement_bucket_by_termination map_of_bump Let_def)
  show ?thesis
    using inst fi dfi dinst placement_bucket_total [of rt idx byInstance placement] step
    by blast
qed

theorem placements_termination_partition_witness:
  "snd (aggregatePlacementsFromRaw sample_runtime
          (JObj [(''placements'', JArr
             [JObj [(''status'', JStr ''successful'')],
              JObj [(''termination_type'', JStr ''user_abandoned'')]])])
          empty_registry_index)
     = [(''unknown_fi__unknown'',
         \<lparr>pi_fi_lookup_key = ''unknown_fi'', pi_fi_lookup_norm = ''unknown_fi'',
          pi_instance = ''unknown'', pi_instance_norm = ''unknown'', pi_is_test = False,
          pi_total_placements = 2, pi_successful_placements = 1,
          pi_by_termination = [(''SUCCESSFUL'', 1), (''USER_ABANDONED'', 1)]\<rparr>)]
   \<and> sum_list (map snd [(''SUCCESSFUL'', 1), (''USER_ABANDONED'', 1 :: nat)]) = 2"
proof -
  let ?raw = "JObj [(''placements'', JArr
             [JObj [(''status'', JStr ''successful'')],
              JObj [(''termination_type'', JStr ''user_abandoned'')]])]"
  let ?b = "\<lparr>pi_fi_lookup_key = ''unknown_fi'', pi_fi_lookup_norm = ''unknown_fi'',
          pi_instance = ''unknown'', pi_instance_norm = ''unknown'', pi_is_test = False,
          pi_total_placements = 2, pi_successful_placements = 1,
          pi_by_termination = [(''SUCCESSFUL'', 1), (''USER_ABANDONED'', 1)]\<rparr>"
  have ev: "snd (aggregatePlacementsFromRaw sample_runtime ?raw empty_registry_index)
     = [(''unknown_fi__unknown'', ?b)]"
    by code_simp
  then have mem: "?b \<in> snd ` set (snd (aggregatePlacementsFromRaw sample_runtime ?raw
      empty_registry_index))"
    by simp
  note t = placements_termination_partition [of sample_runtime ?raw empty_registry_index,
      THEN conjunct1, rule_format, OF mem]
  from t ev show ?thesis
    by simp
qed

subsection \<open>Keys\<close>



lemma length_toLowerCase: "length (toLowerCase s) = length s"
  by (simp add: toLowerCase_def)


















subsection \<open>Folding records into buckets\<close>






subsection \<open>Sessions: where a record is filed\<close>







subsection \<open>Placements: where a record is filed\<close>







subsection \<open>The default / advancial-prod collapse\<close>













subsection \<open>Records without an FI\<close>















subsection \<open>Per-FI totals as sums over the per-instance buckets\<close>






lemma map_of_distinct_entry:
  "distinct (map fst al) \<Longrightarrow> (k, v) \<in> set al \<Longrightarrow> map_of al k = Some v"
  by simp









subsection \<open>What every bucket of an aggregator satisfies\<close>















subsection \<open>The document against the buckets\<close>


















end
